theory Spec2Isabelle
  imports Main "HOL-Library.AList" "HOL-Library.Sublist"
begin

section \<open>The twilio-voice webhook\<close>

text \<open>
  The source is \<^verbatim>\<open>src/unnamed/part_001\<close>. The handler passed to \<^verbatim>\<open>serve\<close> is
  embedded as the function \<open>serve\<close> below.
  Its phases keep the order of the source: the OPTIONS preflight, the parsing of the
  request body into \<^verbatim>\<open>requestData\<close> (lines 60-127), the resolution of
  \<^verbatim>\<open>action\<close> (lines 129-199), the configuration checks and the per-action
  branches (lines 203-614), and the top-level \<^verbatim>\<open>catch\<close> (lines 615-637).
  A log line is kept where it can throw, which is where a template literal converts a
  value of the request to a string. A thrown exception is a value \<open>Inl e\<close>; what the
  JavaScript runtime, the JSON and URL parsers and the telephony client do is a
  parameter.
\<close>

subsection \<open>JavaScript values\<close>

text \<open>
  \<^verbatim>\<open>requestData\<close> has the TypeScript type \<^verbatim>\<open>Record<string, any>\<close>, but what is
  assigned to it is whatever JSON parsing returns, so its values are JSON values. A form
  field may also be an uploaded file. A string is a list of code units below 256. A
  number is kept as the text that string conversion gives for it (\<^verbatim>\<open>String(n)\<close>): the
  handler only tests numbers for truthiness and interpolates them into messages.
  \<open>None\<close> at type \<open>jsval option\<close> is \<^verbatim>\<open>undefined\<close>.
\<close>

datatype jsval =
    JNull
  | JBool bool
  | JNum string
  | JStr string
  | JArr "jsval list"
  | JObj "(string \<times> jsval) list"
  | JFile

text \<open>
  What a \<^verbatim>\<open>catch\<close> receives: an error with its message, or a thrown or rejected
  value whose \<^verbatim>\<open>message\<close> is \<^verbatim>\<open>undefined\<close>.
\<close>

datatype js_error = JsError (message: string) | Thrown
  where "message Thrown = []"

fun truthy :: "jsval \<Rightarrow> bool" where
  "truthy JNull = False"
| "truthy (JBool b) = b"
| "truthy (JNum n) = (n \<noteq> ''0'' \<and> n \<noteq> ''NaN'')"
| "truthy (JStr s) = (s \<noteq> [])"
| "truthy (JArr xs) = True"
| "truthy (JObj kvs) = True"
| "truthy JFile = True"

fun truthy_opt :: "jsval option \<Rightarrow> bool" where
  "truthy_opt None = False"
| "truthy_opt (Some v) = truthy v"

text \<open>\<^verbatim>\<open>a || b\<close> on values.\<close>

fun js_or :: "jsval option \<Rightarrow> jsval option \<Rightarrow> jsval option" where
  "js_or a b = (if truthy_opt a then a else b)"

text \<open>\<^verbatim>\<open>s.startsWith(t)\<close> and \<^verbatim>\<open>s.includes(t)\<close> on strings.\<close>

definition js_startsWith :: "string \<Rightarrow> string \<Rightarrow> bool" where
  "js_startsWith s t = prefix t s"

fun js_includes :: "string \<Rightarrow> string \<Rightarrow> bool" where
  "js_includes [] t = (t = [])"
| "js_includes (c # cs) t = (prefix t (c # cs) \<or> js_includes cs t)"

text \<open>\<^verbatim>\<open>s.trim()\<close>: white space and line terminators below code unit 256.\<close>

definition is_space :: "char \<Rightarrow> bool" where
  "is_space c = (c \<in> {CHR 0x09, CHR 0x0A, CHR 0x0B, CHR 0x0C, CHR 0x0D, CHR 0x20, CHR 0xA0})"

definition js_trim :: "string \<Rightarrow> string" where
  "js_trim s = rev (dropWhile is_space (rev (dropWhile is_space s)))"

text \<open>\<^verbatim>\<open>s.replace(/\D/g, '')\<close>: keep the decimal digits.\<close>

definition is_digit :: "char \<Rightarrow> bool" where
  "is_digit c = (c \<in> set ''0123456789'')"

definition strip_non_digits :: "string \<Rightarrow> string" where
  "strip_non_digits s = filter is_digit s"

text \<open>Decimal rendering of an array index or a length.\<close>

definition digit_char :: "nat \<Rightarrow> char" where
  "digit_char d = ''0123456789'' ! d"

fun string_of_nat :: "nat \<Rightarrow> string" where
  "string_of_nat n =
     (if n < 10 then [digit_char n]
      else string_of_nat (n div 10) @ [digit_char (n mod 10)])"

declare string_of_nat.simps [simp del]

text \<open>
  String conversion, as a template literal applies it. An object of the request with an
  own \<^verbatim>\<open>toString\<close> property cannot be converted: the property is no function, and
  \<^verbatim>\<open>valueOf\<close> gives no primitive. An array joins the conversions of its elements
  with commas, \<^verbatim>\<open>null\<close> elements giving the empty string.
\<close>

definition cannot_convert :: js_error where
  "cannot_convert = JsError ''Cannot convert object to primitive value''"

fun js_join :: "string list \<Rightarrow> string" where
  "js_join [] = []"
| "js_join [s] = s"
| "js_join (s # t # ss) = s @ '','' @ js_join (t # ss)"

fun js_to_string :: "jsval \<Rightarrow> js_error + string"
  and js_to_strings :: "jsval list \<Rightarrow> js_error + string list" where
  "js_to_string JNull = Inr ''null''"
| "js_to_string (JBool b) = Inr (if b then ''true'' else ''false'')"
| "js_to_string (JNum n) = Inr n"
| "js_to_string (JStr s) = Inr s"
| "js_to_string (JArr xs) =
     (case js_to_strings xs of Inl e \<Rightarrow> Inl e | Inr ss \<Rightarrow> Inr (js_join ss))"
| "js_to_string (JObj kvs) =
     (if ''toString'' \<in> set (map fst kvs) then Inl cannot_convert
      else Inr ''[object Object]'')"
| "js_to_string JFile = Inr ''[object File]''"
| "js_to_strings [] = Inr []"
| "js_to_strings (x # xs) =
     (case (if x = JNull then Inr [] else js_to_string x) of
        Inl e \<Rightarrow> Inl e
      | Inr s \<Rightarrow>
          (case js_to_strings xs of Inl e \<Rightarrow> Inl e | Inr ss \<Rightarrow> Inr (s # ss)))"

fun js_to_string_opt :: "jsval option \<Rightarrow> js_error + string" where
  "js_to_string_opt None = Inr ''undefined''"
| "js_to_string_opt (Some v) = js_to_string v"

text \<open>
  A template literal that is only logged: the exception of the first of its values that
  cannot be converted, if there is one.
\<close>

fun template_error :: "jsval option list \<Rightarrow> js_error option" where
  "template_error [] = None"
| "template_error (v # vs) =
     (case js_to_string_opt v of Inl e \<Rightarrow> Some e | Inr s \<Rightarrow> template_error vs)"

subsection \<open>Objects\<close>

text \<open>
  An object is the list of its own enumerable properties, in insertion order.
  \<^verbatim>\<open>obj[key] = value\<close> is \<open>AList.update\<close>: it overwrites in place or appends.
  \<open>assign_all\<close> is a \<^verbatim>\<open>forEach\<close> that assigns every entry in turn, so a later
  entry with the same key wins.
\<close>

definition assign_all :: "(string \<times> jsval) list \<Rightarrow> (string \<times> jsval) list \<Rightarrow> (string \<times> jsval) list" where
  "assign_all entries obj = fold (\<lambda>(k, v). AList.update k v) entries obj"

text \<open>
  The own enumerable properties that \<^verbatim>\<open>{...v}\<close> copies. The first entry of a key
  is the property's value. An array and a string have their indices; the other primitives
  and \<^verbatim>\<open>null\<close> have none.
\<close>

fun own_props :: "jsval \<Rightarrow> (string \<times> jsval) list" where
  "own_props (JObj kvs) = AList.clearjunk kvs"
| "own_props (JArr xs) = zip (map string_of_nat [0..<length xs]) xs"
| "own_props (JStr s) = zip (map string_of_nat [0..<length s]) (map (\<lambda>c. JStr [c]) s)"
| "own_props v = []"

text \<open>
  \<^verbatim>\<open>requestData.key\<close> for a value that is not \<^verbatim>\<open>null\<close>. None of the keys the
  handler reads is a built-in property of arrays, strings or \<^verbatim>\<open>Object.prototype\<close>.
\<close>

definition field :: "jsval \<Rightarrow> string \<Rightarrow> jsval option" where
  "field v k = map_of (own_props v) k"

subsection \<open>Requests, configuration and collaborators\<close>

text \<open>
  A request carries the outcome of each way the handler reads its body:
  \<^verbatim>\<open>reqClone.json()\<close>, \<^verbatim>\<open>reqClone.formData()\<close> (its entries in order),
  \<^verbatim>\<open>reqClone.text()\<close>, and \<^verbatim>\<open>reqClone.text()\<close> called once \<^verbatim>\<open>formData()\<close> has
  failed. \<open>req_query\<close> is \<^verbatim>\<open>url.searchParams\<close>, \<open>req_content_type\<close> the
  \<^verbatim>\<open>content-type\<close> header.
\<close>

record request =
  req_method :: string
  req_query :: "(string \<times> string) list"
  req_content_type :: "string option"
  req_json :: "js_error + jsval"
  req_formData :: "js_error + (string \<times> jsval) list"
  req_text :: "js_error + string"
  req_text_again :: "js_error + string"

text \<open>\<^verbatim>\<open>url.searchParams.get(k)\<close>: the first value of the key, or \<^verbatim>\<open>null\<close>.\<close>

definition searchParams_get :: "request \<Rightarrow> string \<Rightarrow> string option" where
  "searchParams_get req k = map_of (req_query req) k"

subsection \<open>Voice markup and responses\<close>

text \<open>
  The markup is built with the telephony library's \<^verbatim>\<open>VoiceResponse\<close>; a document
  is the list of the verbs added to its root element, so the root element is there
  whatever the list holds. The builder throws on a text or an attribute value with a
  character that XML 1.0 does not allow: below code unit 256 these are the control
  characters other than tab, line feed and carriage return. A JSON body is the value given to \<^verbatim>\<open>JSON.stringify\<close>.
  A \<^verbatim>\<open>Response\<close> built without a status has status 200.
\<close>

datatype dial_noun = NumberNoun string | TextNoun string

datatype verb =
    Say string
  | Dial "(string \<times> string) list" dial_noun
  | Pause nat
  | Hangup

datatype body = NoBody | Twiml "verb list" | Json jsval

record response =
  status :: nat
  headers :: "(string \<times> string) list"
  body :: body

definition xml_illegal_char :: "char \<Rightarrow> bool" where
  "xml_illegal_char c =
     ((of_char c :: nat) < 32 \<and> c \<noteq> CHR 0x09 \<and> c \<noteq> CHR 0x0A \<and> c \<noteq> CHR 0x0D)"

definition xml_legal :: "string \<Rightarrow> bool" where
  "xml_legal s = list_all (\<lambda>c. \<not> xml_illegal_char c) s"

definition corsHeaders :: "(string \<times> string) list" where
  "corsHeaders =
     [(''Access-Control-Allow-Origin'', ''*''),
      (''Access-Control-Allow-Headers'', ''authorization, x-client-info, apikey, content-type''),
      (''Access-Control-Allow-Methods'', ''OPTIONS, POST, GET''),
      (''Access-Control-Max-Age'', ''86400'')]"

definition DEFAULT_TIMEOUT :: nat where
  "DEFAULT_TIMEOUT = 20"

definition xml_response :: "verb list \<Rightarrow> response" where
  "xml_response vs =
     \<lparr>status = 200, headers = corsHeaders @ [(''Content-Type'', ''text/xml'')], body = Twiml vs\<rparr>"

definition json_response :: "jsval \<Rightarrow> response" where
  "json_response v =
     \<lparr>status = 200, headers = corsHeaders @ [(''Content-Type'', ''application/json'')], body = Json v\<rparr>"

definition json_failure :: "string \<Rightarrow> response" where
  "json_failure msg = json_response (JObj [(''success'', JBool False), (''error'', JStr msg)])"

text \<open>
  \<^verbatim>\<open>{ success: false, error: error.message }\<close>: a property that is
  \<^verbatim>\<open>undefined\<close> is left out of the JSON text.
\<close>

definition error_payload :: "js_error \<Rightarrow> response" where
  "error_payload error =
     json_response (JObj ((''success'', JBool False) #
       (case error of JsError m \<Rightarrow> [(''error'', JStr m)] | Thrown \<Rightarrow> [])))"

text \<open>\<^verbatim>\<open>error.message || fallback\<close>.\<close>

definition message_or :: "js_error \<Rightarrow> string \<Rightarrow> string" where
  "message_or e fallback = (if message e = [] then fallback else message e)"

text \<open>
  The telephony client. \<open>twilio_init\<close> is the constructor \<^verbatim>\<open>twilio(sid, token)\<close>,
  which may throw. Each call of the REST interface has an outcome: the new call's sid,
  the fetched call's status, the sids of the calls in progress, or an error.
  \<open>update_settles_at\<close> is the moment the promise of an update settles.
  \<open>xml_invalid\<close> is the error the markup builder throws for a string it refuses.
\<close>

record create_params =
  cp_twiml :: "verb list"
  cp_to :: string
  cp_from :: string
  cp_statusCallback :: string
  cp_statusCallbackEvent :: "string list"
  cp_statusCallbackMethod :: string

datatype api_call =
    CallsCreate create_params
  | CallsFetch jsval
  | CallsUpdate jsval
  | CallsList

record env =
  TWILIO_ACCOUNT_SID :: "string option"
  TWILIO_AUTH_TOKEN :: "string option"
  TWILIO_PHONE_NUMBER :: "string option"
  JSON_parse :: "string \<Rightarrow> js_error + jsval"
  URLSearchParams :: "string \<Rightarrow> (string \<times> string) list"
  twilio_init :: "string \<Rightarrow> string \<Rightarrow> js_error option"
  calls_create :: "create_params \<Rightarrow> js_error + string"
  calls_fetch :: "jsval \<Rightarrow> js_error + string"
  calls_update :: "jsval \<Rightarrow> js_error option"
  update_settles_at :: "jsval \<Rightarrow> nat"
  calls_list :: "js_error + string list"
  xml_invalid :: "string \<Rightarrow> js_error"

text \<open>The builder's check of the strings given to it, in their order.\<close>

fun xml_check :: "env \<Rightarrow> string list \<Rightarrow> js_error option" where
  "xml_check env [] = None"
| "xml_check env (s # ss) = (if xml_legal s then xml_check env ss else Some (xml_invalid env s))"

subsection \<open>Parsing the request body (lines 60-127)\<close>

definition string_entries :: "(string \<times> string) list \<Rightarrow> (string \<times> jsval) list" where
  "string_entries kvs = map (\<lambda>(k, v). (k, JStr v)) kvs"

definition parse_body :: "env \<Rightarrow> request \<Rightarrow> jsval" where
  "parse_body env req =
     (let contentType = (case req_content_type req of None \<Rightarrow> [] | Some c \<Rightarrow> c) in
      if js_includes contentType ''application/json'' then
        (case req_json req of
           Inr v \<Rightarrow> v
         | Inl e \<Rightarrow> JObj [])
      else if js_includes contentType ''application/x-www-form-urlencoded''
              \<or> js_includes contentType ''multipart/form-data'' then
        (case req_formData req of
           Inr entries \<Rightarrow> JObj (assign_all entries [])
         | Inl e \<Rightarrow>
             (case req_text_again req of
                Inr t \<Rightarrow> JObj (assign_all (string_entries (URLSearchParams env t)) [])
              | Inl textError \<Rightarrow> JObj []))
      else
        (case req_text req of
           Inr t \<Rightarrow>
             if t \<noteq> [] \<and> js_trim t \<noteq> [] then
               (case JSON_parse env t of
                  Inr v \<Rightarrow> v
                | Inl e \<Rightarrow> JObj (assign_all (string_entries (URLSearchParams env t)) []))
             else JObj []
         | Inl e \<Rightarrow> JObj []))"

subsection \<open>Resolving the action (lines 129-199)\<close>

text \<open>
  The first property read of \<^verbatim>\<open>requestData\<close> (line 130) throws when it is
  \<^verbatim>\<open>null\<close>. Calling \<^verbatim>\<open>startsWith\<close> or \<^verbatim>\<open>includes\<close> on a value that has no
  such method throws too, and so does the log of line 162, which converts the call
  identifier and the status to strings.
\<close>

definition null_read_error :: "string \<Rightarrow> js_error" where
  "null_read_error k =
     JsError (''Cannot read properties of null (reading '' @ [CHR 0x27] @ k @ [CHR 0x27] @ '')'')"

definition not_a_function :: "string \<Rightarrow> js_error" where
  "not_a_function callee = JsError (callee @ '' is not a function'')"

definition isStatusCallback :: "request \<Rightarrow> jsval \<Rightarrow> bool" where
  "isStatusCallback req rd =
     (truthy_opt (field rd ''CallSid'') \<and>
       (truthy_opt (field rd ''CallStatus'')
        \<or> field rd ''CallbackSource'' = Some (JStr ''call-progress-events'')
        \<or> truthy_opt (map_option JStr (searchParams_get req ''statusCallback''))
        \<or> truthy_opt (field rd ''statusCallback'')))"

text \<open>Lines 161-172, inside \<^verbatim>\<open>if (isStatusCallback)\<close>.\<close>

definition status_log_error :: "jsval \<Rightarrow> js_error option" where
  "status_log_error rd =
     (if truthy_opt (field rd ''CallStatus'')
      then template_error [field rd ''CallSid'', field rd ''CallStatus'']
      else None)"

text \<open>\<^verbatim>\<open>requestData.StatusCallbackEvent?.includes('conference')\<close>.\<close>

definition event_mentions_conference :: "jsval \<Rightarrow> js_error + bool" where
  "event_mentions_conference rd =
     (case field rd ''StatusCallbackEvent'' of
        None \<Rightarrow> Inr False
      | Some JNull \<Rightarrow> Inr False
      | Some (JStr s) \<Rightarrow> Inr (js_includes s ''conference'')
      | Some (JArr xs) \<Rightarrow> Inr (JStr ''conference'' \<in> set xs)
      | Some v \<Rightarrow> Inl (not_a_function ''requestData.StatusCallbackEvent?.includes''))"

definition isConferenceCallback :: "jsval \<Rightarrow> jsval option \<Rightarrow> js_error + bool" where
  "isConferenceCallback rd action =
     (if truthy_opt (field rd ''ConferenceSid'') \<or> action = Some (JStr ''conferenceStatus'')
      then Inr True
      else event_mentions_conference rd)"

text \<open>\<^verbatim>\<open>requestData.From && requestData.From.startsWith('client:')\<close>.\<close>

definition from_is_client :: "jsval \<Rightarrow> js_error + bool" where
  "from_is_client rd =
     (case field rd ''From'' of
        None \<Rightarrow> Inr False
      | Some (JStr s) \<Rightarrow> Inr (s \<noteq> [] \<and> js_startsWith s ''client:'')
      | Some v \<Rightarrow>
          if truthy v then Inl (not_a_function ''requestData.From.startsWith'')
          else Inr False)"

definition isClientInitiatedCall :: "jsval \<Rightarrow> js_error + bool" where
  "isClientInitiatedCall rd =
     (case from_is_client rd of
        Inl e \<Rightarrow> Inl e
      | Inr b \<Rightarrow> Inr (b \<and> truthy_opt (field rd ''phoneNumber'')))"

text \<open>The result is the final \<^verbatim>\<open>action\<close> and \<^verbatim>\<open>isClientInitiatedCall\<close>.\<close>

definition classify :: "request \<Rightarrow> jsval \<Rightarrow> js_error + (jsval option \<times> bool)" where
  "classify req rd =
     (if rd = JNull then Inl (null_read_error ''action'')
      else
        let a0 = map_option JStr (searchParams_get req ''action'');
            a1 = (if \<not> truthy_opt a0 \<and> truthy_opt (field rd ''action'')
                  then field rd ''action'' else a0);
            a2 = (if \<not> truthy_opt a1 \<and> truthy_opt (field rd ''phoneNumber'')
                  then Some (JStr ''incomingCall'') else a1);
            a3 = (if isStatusCallback req rd then Some (JStr ''statusCallback'') else a2)
        in
          (case (if isStatusCallback req rd then status_log_error rd else None) of
             Some e \<Rightarrow> Inl e
           | None \<Rightarrow>
               (case isConferenceCallback rd a3 of
                  Inl e \<Rightarrow> Inl e
                | Inr conf \<Rightarrow>
                    let a4 = (if conf then Some (JStr ''conferenceStatus'') else a3) in
                    (case isClientInitiatedCall rd of
                       Inl e \<Rightarrow> Inl e
                     | Inr client \<Rightarrow>
                         Inr (if client then Some (JStr ''clientCall'') else a4, client)))))"

subsection \<open>The branches of the handler (lines 221-614)\<close>

text \<open>
  Lines 262-266, 345-349 and 587-590: the number is left as it is when it starts with
  \<^verbatim>\<open>+\<close> or contains \<^verbatim>\<open>client:\<close>; otherwise the digits are kept and \<^verbatim>\<open>+\<close> is put
  in front. The argument is truthy; when it is not a string, \<^verbatim>\<open>startsWith\<close> is missing.
\<close>

definition formattedPhoneNumber :: "jsval \<Rightarrow> js_error + string" where
  "formattedPhoneNumber phoneNumber =
     (case phoneNumber of
        JStr s \<Rightarrow>
          Inr (if \<not> js_startsWith s ''+'' \<and> \<not> js_includes s ''client:''
               then ''+'' @ strip_non_digits s else s)
      | v \<Rightarrow> Inl (not_a_function ''phoneNumber.startsWith''))"

definition missing_phone_number_response :: response where
  "missing_phone_number_response =
     xml_response [Say ''There was a configuration error. The system is missing a phone number to use as caller ID.'']"

definition missing_credentials_response :: response where
  "missing_credentials_response =
     xml_response [Say ''There was a configuration error with the Twilio credentials.'']"

text \<open>
  Lines 244-297. The formatting of the number stands before the inner \<^verbatim>\<open>try\<close>, so
  its exception leaves the branch. Inside the \<^verbatim>\<open>try\<close> the template literal of the
  callback URL converts the lead reference, and the builder checks the attribute values
  and the number; when one of them throws, the inner \<^verbatim>\<open>catch\<close> answers the apology.
\<close>

definition clientCall_markup :: "env \<Rightarrow> string \<Rightarrow> jsval option \<Rightarrow> string \<Rightarrow> js_error + verb list" where
  "clientCall_markup env callerId leadId formatted =
     (case js_to_string_opt leadId of
        Inl e \<Rightarrow> Inl e
      | Inr lead \<Rightarrow>
          let attrs =
                [(''callerId'', callerId),
                 (''timeout'', string_of_nat DEFAULT_TIMEOUT),
                 (''action'', ''https://imrmboyczebjlbnkgjns.supabase.co/functions/v1/twilio-voice?action=dialStatus&leadId='' @ lead),
                 (''method'', ''POST'')]
          in (case xml_check env (map snd attrs @ [formatted]) of
                Some e \<Rightarrow> Inl e
              | None \<Rightarrow>
                  Inr [Say ''Connecting your call. Please wait.'',
                       Dial attrs (NumberNoun formatted)]))"

definition clientCall_handler :: "env \<Rightarrow> string \<Rightarrow> jsval \<Rightarrow> js_error + response" where
  "clientCall_handler env callerId rd =
     (let phoneNumber = field rd ''phoneNumber'';
          leadId = js_or (field rd ''leadId'') (Some (JStr ''unknown''))
      in case phoneNumber of
           None \<Rightarrow> Inr (xml_response [Say ''No phone number was provided. Please try your call again.''])
         | Some p \<Rightarrow>
             if \<not> truthy p
             then Inr (xml_response [Say ''No phone number was provided. Please try your call again.''])
             else
               (case formattedPhoneNumber p of
                  Inl e \<Rightarrow> Inl e
                | Inr formatted \<Rightarrow>
                    (case clientCall_markup env callerId leadId formatted of
                       Inr twiml \<Rightarrow> Inr (xml_response twiml)
                     | Inl err \<Rightarrow>
                         Inr (xml_response
                           [Say ''Sorry, there was an error connecting your call. Please try again later.'']))))"

definition getConfig_handler :: "string \<Rightarrow> response" where
  "getConfig_handler callerId =
     json_response (JObj [(''twilioPhoneNumber'', JStr callerId), (''success'', JBool True)])"

text \<open>
  Lines 328-394. Everything from the three logs of lines 340-342 to the creation of the
  call is inside the \<^verbatim>\<open>try\<close>. \<open>makeCall_prepare\<close> is what comes before the call of
  the provider.
\<close>

definition makeCall_prepare :: "env \<Rightarrow> string \<Rightarrow> jsval \<Rightarrow> jsval option \<Rightarrow> jsval option \<Rightarrow> js_error + create_params" where
  "makeCall_prepare env callerId p browserClientName leadId =
     (case template_error
             [Some p,
              js_or browserClientName (Some (JStr ''not provided'')),
              js_or leadId (Some (JStr ''not provided''))] of
        Some e \<Rightarrow> Inl e
      | None \<Rightarrow>
          (case formattedPhoneNumber p of
             Inl e \<Rightarrow> Inl e
           | Inr formatted \<Rightarrow>
               let attrs = [(''callerId'', callerId),
                            (''timeout'', string_of_nat DEFAULT_TIMEOUT)]
               in (case xml_check env (map snd attrs @ [formatted]) of
                     Some e \<Rightarrow> Inl e
                   | None \<Rightarrow>
                       (case js_to_string_opt leadId of
                          Inl e \<Rightarrow> Inl e
                        | Inr lead \<Rightarrow>
                            Inr \<lparr>cp_twiml =
                                   [Say ''Connecting to the phone number. Please wait.'',
                                    Dial attrs (NumberNoun formatted)],
                                 cp_to = formatted,
                                 cp_from = callerId,
                                 cp_statusCallback = ''https://imrmboyczebjlbnkgjns.supabase.co/functions/v1/dialer-webhook?callId='' @ lead,
                                 cp_statusCallbackEvent = [''initiated'', ''ringing'', ''answered'', ''completed''],
                                 cp_statusCallbackMethod = ''POST''\<rparr>))))"

definition makeCall_handler :: "env \<Rightarrow> string \<Rightarrow> jsval \<Rightarrow> response \<times> api_call list" where
  "makeCall_handler env callerId rd =
     (let phoneNumber = field rd ''phoneNumber'';
          browserClientName = field rd ''browserClientName'';
          leadId = field rd ''leadId''
      in case phoneNumber of
           None \<Rightarrow> (json_failure ''Phone number is required'', [])
         | Some p \<Rightarrow>
             if \<not> truthy p then (json_failure ''Phone number is required'', [])
             else
               (case makeCall_prepare env callerId p browserClientName leadId of
                  Inl error \<Rightarrow> (json_failure (message_or error ''Failed to make call''), [])
                | Inr params \<Rightarrow>
                    (case calls_create env params of
                       Inr sid \<Rightarrow>
                         (json_response (JObj
                            ([(''success'', JBool True),
                              (''callSid'', JStr sid),
                              (''message'', JStr ''Direct outbound call placed'')]
                             @ (case leadId of None \<Rightarrow> [] | Some l \<Rightarrow> [(''leadId'', l)]))),
                          [CallsCreate params])
                     | Inl error \<Rightarrow>
                         (json_failure (message_or error ''Failed to make call''),
                          [CallsCreate params]))))"

text \<open>
  Lines 399-407: \<^verbatim>\<open>callbackData\<close> takes every query parameter in turn, then
  \<^verbatim>\<open>{ ...callbackData, ...requestData }\<close> copies it and writes the properties of
  \<^verbatim>\<open>requestData\<close> over the copy.
\<close>

definition callbackData :: "request \<Rightarrow> jsval \<Rightarrow> (string \<times> jsval) list" where
  "callbackData req rd =
     (let fromUrl = assign_all (string_entries (req_query req)) []
      in assign_all (own_props rd) (assign_all fromUrl []))"

text \<open>
  Lines 395-427. The log of line 413 converts the call identifier, the status and the
  lead reference; it stands in no inner \<^verbatim>\<open>try\<close>.
\<close>

definition statusCallback_handler :: "request \<Rightarrow> jsval \<Rightarrow> js_error + response" where
  "statusCallback_handler req rd =
     (let data = callbackData req rd;
          callStatus = map_of data ''CallStatus'';
          callSid = map_of data ''CallSid'';
          leadId = js_or (map_of data ''leadId'') (map_option JStr (searchParams_get req ''leadId''))
      in case template_error [callSid, callStatus, js_or leadId (Some (JStr ''unknown''))] of
           Some e \<Rightarrow> Inl e
         | None \<Rightarrow>
             Inr (xml_response
                   (if callStatus = Some (JStr ''completed'')
                    then [Say ''Thank you for using our service. Goodbye.'']
                    else [])))"

text \<open>
  Lines 428-454. The busy and no-answer branches log the call reference after they
  speak; the last branch speaks the converted status, which the builder checks.
\<close>

definition dialStatus_handler :: "env \<Rightarrow> jsval \<Rightarrow> js_error + response" where
  "dialStatus_handler env rd =
     (let dialCallStatus = field rd ''DialCallStatus'';
          callId = js_or (js_or (field rd ''callId'') (field rd ''leadId'')) (Some (JStr ''unknown''))
      in if dialCallStatus = Some (JStr ''completed'')
         then Inr (xml_response [Say ''The call has ended. Thank you for using our service.''])
         else if dialCallStatus = Some (JStr ''busy'')
         then (case template_error [callId] of
                 Some e \<Rightarrow> Inl e
               | None \<Rightarrow> Inr (xml_response [Say ''The number you called is busy. Please try again later.'']))
         else if dialCallStatus = Some (JStr ''no-answer'')
         then (case template_error [callId] of
                 Some e \<Rightarrow> Inl e
               | None \<Rightarrow> Inr (xml_response [Say ''There was no answer. Please try again later.'']))
         else if dialCallStatus = Some (JStr ''failed'')
         then Inr (xml_response [Say ''The call failed to connect. Please check the number and try again.''])
         else
           (case js_to_string_opt (js_or dialCallStatus (Some (JStr ''unknown''))) of
              Inl e \<Rightarrow> Inl e
            | Inr shown \<Rightarrow>
                (case xml_check env [''Call status is '' @ shown @ ''. Goodbye.''] of
                   Some e \<Rightarrow> Inl e
                 | None \<Rightarrow> Inr (xml_response [Say (''Call status is '' @ shown @ ''. Goodbye.'')]))))"

text \<open>
  Lines 455-494. The log of line 468 is inside the \<^verbatim>\<open>try\<close>, but the \<^verbatim>\<open>catch\<close>
  logs the same conversion at line 487, so an identifier that cannot be converted throws
  out of the branch.
\<close>

definition checkStatus_handler :: "env \<Rightarrow> jsval \<Rightarrow> js_error + response \<times> api_call list" where
  "checkStatus_handler env rd =
     (case field rd ''callSid'' of
        None \<Rightarrow> Inr (json_failure ''Call SID is required to check call status'', [])
      | Some callSid \<Rightarrow>
          if \<not> truthy callSid
          then Inr (json_failure ''Call SID is required to check call status'', [])
          else
            (case template_error [Some callSid] of
               Some e \<Rightarrow> Inl e
             | None \<Rightarrow>
                 if callSid = JStr ''pending-sid'' \<or> callSid = JStr ''browser-call''
                 then Inr (json_response (JObj [(''success'', JBool True), (''status'', JStr ''pending'')]), [])
                 else
                   (case calls_fetch env callSid of
                      Inr call_status \<Rightarrow>
                        Inr (json_response (JObj [(''success'', JBool True), (''status'', JStr call_status)]),
                             [CallsFetch callSid])
                    | Inl error \<Rightarrow> Inr (error_payload error, [CallsFetch callSid]))))"

text \<open>Lines 495-531, with the logs of lines 507 and 524.\<close>

definition endCall_handler :: "env \<Rightarrow> jsval \<Rightarrow> js_error + response \<times> api_call list" where
  "endCall_handler env rd =
     (case field rd ''callSid'' of
        None \<Rightarrow> Inr (json_failure ''Call SID is required to end a call'', [])
      | Some callSid \<Rightarrow>
          if \<not> truthy callSid
          then Inr (json_failure ''Call SID is required to end a call'', [])
          else
            (case template_error [Some callSid] of
               Some e \<Rightarrow> Inl e
             | None \<Rightarrow>
                 if callSid = JStr ''browser-call''
                 then Inr (json_response (JObj [(''success'', JBool True),
                                  (''message'', JStr ''Browser call handling managed client-side'')]), [])
                 else
                   (case calls_update env callSid of
                      None \<Rightarrow>
                        Inr (json_response (JObj [(''success'', JBool True), (''message'', JStr ''Call ended'')]),
                             [CallsUpdate callSid])
                    | Some error \<Rightarrow> Inr (error_payload error, [CallsUpdate callSid]))))"

text \<open>
  \<^verbatim>\<open>Promise.all\<close> over promises that are all started: it is fulfilled when every one
  is, and rejected with the reason of the rejection that settles first (the earlier in
  the list, of two that settle at the same moment).
\<close>

fun first_rejection :: "(nat \<times> js_error option) list \<Rightarrow> (nat \<times> js_error) option" where
  "first_rejection [] = None"
| "first_rejection ((t, None) # ps) = first_rejection ps"
| "first_rejection ((t, Some e) # ps) =
     (case first_rejection ps of
        None \<Rightarrow> Some (t, e)
      | Some (t', e') \<Rightarrow> if t' < t then Some (t', e') else Some (t, e))"

definition Promise_all :: "(nat \<times> js_error option) list \<Rightarrow> js_error option" where
  "Promise_all ps = map_option snd (first_rejection ps)"

text \<open>
  Lines 532-563. \<^verbatim>\<open>callsList.map\<close> starts one update per listed call before anything
  is awaited.
\<close>

definition hangupAll_handler :: "env \<Rightarrow> response \<times> api_call list" where
  "hangupAll_handler env =
     (case calls_list env of
        Inl error \<Rightarrow> (json_failure (message_or error ''Failed to hang up all calls''), [CallsList])
      | Inr callsList \<Rightarrow>
          let hangupPromises =
                map (\<lambda>sid. (update_settles_at env (JStr sid), calls_update env (JStr sid))) callsList;
              issued = CallsList # map (\<lambda>sid. CallsUpdate (JStr sid)) callsList
          in (case Promise_all hangupPromises of
                None \<Rightarrow>
                  (json_response (JObj
                     [(''success'', JBool True),
                      (''message'', JStr (''Terminated '' @ string_of_nat (length callsList) @ '' active calls''))]),
                   issued)
              | Some error \<Rightarrow>
                  (json_failure (message_or error ''Failed to hang up all calls''), issued)))"

text \<open>
  Lines 564-614: a bare call from a browser client, or the unknown action. Nothing here
  is inside an inner \<^verbatim>\<open>try\<close>. \<^verbatim>\<open>action\<close> is \<^verbatim>\<open>null\<close> when nothing set it.
\<close>

definition action_text :: "jsval option \<Rightarrow> js_error + string" where
  "action_text action = (case action of None \<Rightarrow> Inr ''null'' | Some v \<Rightarrow> js_to_string v)"

definition default_handler :: "env \<Rightarrow> string \<Rightarrow> jsval \<Rightarrow> jsval option \<Rightarrow> js_error + response" where
  "default_handler env callerId rd action =
     (case from_is_client rd of
        Inl e \<Rightarrow> Inl e
      | Inr True \<Rightarrow>
          (case field rd ''phoneNumber'' of
             None \<Rightarrow>
               Inr (xml_response
                 [Say ''No phone number was provided for this call. Please specify a phone number to call.'',
                  Pause 1, Hangup])
           | Some p \<Rightarrow>
               if \<not> truthy p
               then Inr (xml_response
                 [Say ''No phone number was provided for this call. Please specify a phone number to call.'',
                  Pause 1, Hangup])
               else
                 (case template_error [Some p] of
                    Some e \<Rightarrow> Inl e
                  | None \<Rightarrow>
                      (case formattedPhoneNumber p of
                         Inl e \<Rightarrow> Inl e
                       | Inr formatted \<Rightarrow>
                           let attrs = [(''callerId'', callerId),
                                        (''timeout'', string_of_nat DEFAULT_TIMEOUT)]
                           in (case xml_check env (map snd attrs @ [formatted]) of
                                 Some e \<Rightarrow> Inl e
                               | None \<Rightarrow>
                                   Inr (xml_response
                                     [Say ''Please wait while we connect your call.'',
                                      Dial attrs (TextNoun formatted)])))))
      | Inr False \<Rightarrow>
          (case action_text action of
             Inl e \<Rightarrow> Inl e
           | Inr shown \<Rightarrow>
               Inr (json_failure (''The requested action '' @ shown @ '' is not supported.''))))"

text \<open>Lines 327-614, with the client at hand.\<close>

definition with_client :: "env \<Rightarrow> request \<Rightarrow> jsval \<Rightarrow> jsval option \<Rightarrow> string \<Rightarrow> js_error + response \<times> api_call list" where
  "with_client env req rd action callerId =
     (if action = Some (JStr ''makeCall'') then Inr (makeCall_handler env callerId rd)
      else if action = Some (JStr ''statusCallback'')
              \<or> (\<not> truthy_opt action \<and> truthy_opt (field rd ''CallSid''))
      then (case statusCallback_handler req rd of Inl e \<Rightarrow> Inl e | Inr r \<Rightarrow> Inr (r, []))
      else if action = Some (JStr ''dialStatus'')
      then (case dialStatus_handler env rd of Inl e \<Rightarrow> Inl e | Inr r \<Rightarrow> Inr (r, []))
      else if action = Some (JStr ''checkStatus'') then checkStatus_handler env rd
      else if action = Some (JStr ''endCall'') then endCall_handler env rd
      else if action = Some (JStr ''hangupAll'') then Inr (hangupAll_handler env)
      else
        (case default_handler env callerId rd action of
           Inl e \<Rightarrow> Inl e
         | Inr r \<Rightarrow> Inr (r, [])))"

text \<open>\<^verbatim>\<open>!v\<close> for an environment variable.\<close>

definition unset :: "string option \<Rightarrow> bool" where
  "unset v = (case v of None \<Rightarrow> True | Some s \<Rightarrow> s = [])"

text \<open>Lines 203-325 and what follows: everything after the action is resolved.\<close>

definition handle_action :: "env \<Rightarrow> request \<Rightarrow> jsval \<Rightarrow> jsval option \<Rightarrow> bool \<Rightarrow> js_error + response \<times> api_call list" where
  "handle_action env req rd action client =
     (case TWILIO_PHONE_NUMBER env of
        None \<Rightarrow> Inr (missing_phone_number_response, [])
      | Some callerId \<Rightarrow>
          if callerId = [] then Inr (missing_phone_number_response, [])
          else if action = Some (JStr ''conferenceStatus'') then Inr (xml_response [], [])
          else if action = Some (JStr ''clientCall'') \<or> client then
            (case clientCall_handler env callerId rd of
               Inl e \<Rightarrow> Inl e
             | Inr r \<Rightarrow> Inr (r, []))
          else if action = Some (JStr ''getConfig'') then Inr (getConfig_handler callerId, [])
          else
            (case (TWILIO_ACCOUNT_SID env, TWILIO_AUTH_TOKEN env) of
               (Some sid, Some token) \<Rightarrow>
                 if sid = [] \<or> token = [] then Inr (missing_credentials_response, [])
                 else
                   (case twilio_init env sid token of
                      Some e \<Rightarrow> Inl e
                    | None \<Rightarrow> with_client env req rd action callerId)
             | _ \<Rightarrow> Inr (missing_credentials_response, [])))"

subsection \<open>The whole handler\<close>

text \<open>Lines 615-637: the top-level \<^verbatim>\<open>catch\<close>.\<close>

definition catch_handler :: "js_error \<Rightarrow> response" where
  "catch_handler error =
     (if message error \<noteq> [] \<and> js_includes (message error) ''JSON''
      then xml_response []
      else \<lparr>status = 200,
            headers = corsHeaders @ [(''Content-Type'', ''application/json'')],
            body = Json (JObj [(''success'', JBool False),
                               (''error'', JStr (message_or error ''An unexpected error occurred''))])\<rparr>)"

text \<open>Lines 54-614: the body of the \<^verbatim>\<open>try\<close>.\<close>

definition try_block :: "env \<Rightarrow> request \<Rightarrow> js_error + response \<times> api_call list" where
  "try_block env req =
     (let requestData = parse_body env req
      in case classify req requestData of
           Inl e \<Rightarrow> Inl e
         | Inr (action, client) \<Rightarrow> handle_action env req requestData action client)"

text \<open>
  The handler returns its response and the calls it made on the telephony client. An
  exception leaves the \<^verbatim>\<open>try\<close> only before any such call is made: an exception
  after one is caught by the inner \<^verbatim>\<open>catch\<close> of its branch.
\<close>

definition serve :: "env \<Rightarrow> request \<Rightarrow> response \<times> api_call list" where
  "serve env req =
     (if req_method req = ''OPTIONS''
      then (\<lparr>status = 204, headers = corsHeaders, body = NoBody\<rparr>, [])
      else
        (case try_block env req of
           Inr result \<Rightarrow> result
         | Inl error \<Rightarrow> (catch_handler error, [])))"

subsection \<open>Reading a response\<close>

text \<open>The numbers a markup document dials and the texts it speaks.\<close>

fun noun_text :: "dial_noun \<Rightarrow> string" where
  "noun_text (NumberNoun n) = n"
| "noun_text (TextNoun n) = n"

fun dial_targets :: "verb list \<Rightarrow> string list" where
  "dial_targets [] = []"
| "dial_targets (Dial attrs noun # vs) = noun_text noun # dial_targets vs"
| "dial_targets (v # vs) = dial_targets vs"

fun spoken :: "verb list \<Rightarrow> string list" where
  "spoken [] = []"
| "spoken (Say m # vs) = m # spoken vs"
| "spoken (v # vs) = spoken vs"

fun markup :: "response \<Rightarrow> verb list option" where
  "markup r = (case body r of Twiml vs \<Rightarrow> Some vs | _ \<Rightarrow> None)"

definition content_type :: "response \<Rightarrow> string option" where
  "content_type r = map_of (headers r) ''Content-Type''"

text \<open>
  The caller ID is configured; the credentials are configured and the client constructor
  accepts them.
\<close>

definition caller_id_set :: "env \<Rightarrow> bool" where
  "caller_id_set env = (\<not> unset (TWILIO_PHONE_NUMBER env))"

definition client_ready :: "env \<Rightarrow> bool" where
  "client_ready env =
     (case (TWILIO_ACCOUNT_SID env, TWILIO_AUTH_TOKEN env) of
        (Some sid, Some token) \<Rightarrow> sid \<noteq> [] \<and> token \<noteq> [] \<and> twilio_init env sid token = None
      | _ \<Rightarrow> False)"

text \<open>The value of a decimal rendering, to tell two indices apart.\<close>

definition digits_value :: "string \<Rightarrow> nat" where
  "digits_value s = foldl (\<lambda>a c. 10 * a + (of_char c - 48)) 0 s"

subsection \<open>Sample configuration and requests\<close>

text \<open>
  A configured deployment whose provider reports three calls in progress and refuses
  to end the second. Its parsers are given on the bodies used below only.
\<close>

definition sample_env :: env where
  "sample_env =
     \<lparr>TWILIO_ACCOUNT_SID = Some ''AC0123456789'',
      TWILIO_AUTH_TOKEN = Some ''token'',
      TWILIO_PHONE_NUMBER = Some ''+15550100'',
      JSON_parse = (\<lambda>t. if t = ''null'' then Inr JNull else Inl (JsError ''Unexpected token'')),
      URLSearchParams = (\<lambda>t. []),
      twilio_init = (\<lambda>sid token. None),
      calls_create = (\<lambda>params. Inr ''CA900''),
      calls_fetch = (\<lambda>sid. Inr ''in-progress''),
      calls_update = (\<lambda>sid. if sid = JStr ''CA2'' then Some (JsError ''Call is not in-progress'') else None),
      update_settles_at = (\<lambda>sid. 0),
      calls_list = Inr [''CA1'', ''CA2'', ''CA3''],
      xml_invalid = (\<lambda>s. JsError (''Invalid character in string: '' @ s))\<rparr>"

definition calm_env :: env where
  "calm_env = sample_env\<lparr>calls_update := (\<lambda>sid. None)\<rparr>"

definition env_without_caller_id :: env where
  "env_without_caller_id = sample_env\<lparr>TWILIO_PHONE_NUMBER := None\<rparr>"

definition env_without_credentials :: env where
  "env_without_credentials = sample_env\<lparr>TWILIO_AUTH_TOKEN := None\<rparr>"

text \<open>A POST with a JSON body, given as its text and its parsed value.\<close>

definition json_post :: "(string \<times> string) list \<Rightarrow> string \<Rightarrow> jsval \<Rightarrow> request" where
  "json_post q raw v =
     \<lparr>req_method = ''POST'',
      req_query = q,
      req_content_type = Some ''application/json'',
      req_json = Inr v,
      req_formData = Inl (JsError ''Body can not be decoded as form data''),
      req_text = Inr raw,
      req_text_again = Inl (JsError ''Body already consumed'')\<rparr>"

text \<open>A form-encoded POST, given as its text and its decoded fields.\<close>

definition form_post :: "(string \<times> string) list \<Rightarrow> string \<Rightarrow> (string \<times> string) list \<Rightarrow> request" where
  "form_post q raw entries =
     \<lparr>req_method = ''POST'',
      req_query = q,
      req_content_type = Some ''application/x-www-form-urlencoded'',
      req_json = Inl (JsError ''Unexpected token''),
      req_formData = Inr (string_entries entries),
      req_text = Inr raw,
      req_text_again = Inl (JsError ''Body already consumed'')\<rparr>"

definition client_call_request :: request where
  "client_call_request =
     form_post [] ''From=client%3Aabc&phoneNumber=5551234567&CallSid=CA123&CallStatus=ringing''
       [(''From'', ''client:abc''), (''phoneNumber'', ''5551234567''),
        (''CallSid'', ''CA123''), (''CallStatus'', ''ringing'')]"

definition empty_number_request :: request where
  "empty_number_request =
     form_post [] ''From=client%3Aabc&phoneNumber=&CallSid=CA123&CallStatus=ringing''
       [(''From'', ''client:abc''), (''phoneNumber'', []),
        (''CallSid'', ''CA123''), (''CallStatus'', ''ringing'')]"

definition completed_request :: request where
  "completed_request =
     form_post [(''leadId'', ''42'')] ''CallSid=CA123&CallStatus=completed''
       [(''CallSid'', ''CA123''), (''CallStatus'', ''completed'')]"

definition override_request :: request where
  "override_request =
     form_post [(''CallStatus'', ''completed'')] ''CallSid=CA123&CallStatus=ringing''
       [(''CallSid'', ''CA123''), (''CallStatus'', ''ringing'')]"

definition numeric_event_request :: request where
  "numeric_event_request =
     json_post [] ''{\"From\":\"client:abc\",\"phoneNumber\":\"5551234567\",\"StatusCallbackEvent\":5}''
       (JObj [(''From'', JStr ''client:abc''), (''phoneNumber'', JStr ''5551234567''),
              (''StatusCallbackEvent'', JNum ''5'')])"

text \<open>Requests with a value that cannot be converted to a string.\<close>

definition unloggable_sid_request :: request where
  "unloggable_sid_request =
     json_post [] ''{\"From\":\"client:abc\",\"phoneNumber\":\"5551234567\",\"CallSid\":{\"toString\":null},\"CallStatus\":\"ringing\"}''
       (JObj [(''From'', JStr ''client:abc''), (''phoneNumber'', JStr ''5551234567''),
              (''CallSid'', JObj [(''toString'', JNull)]), (''CallStatus'', JStr ''ringing'')])"

definition unloggable_lead_call_request :: request where
  "unloggable_lead_call_request =
     json_post [] ''{\"action\":\"clientCall\",\"phoneNumber\":\"5551234567\",\"leadId\":{\"toString\":null}}''
       (JObj [(''action'', JStr ''clientCall''), (''phoneNumber'', JStr ''5551234567''),
              (''leadId'', JObj [(''toString'', JNull)])])"

definition unloggable_lead_callback_request :: request where
  "unloggable_lead_callback_request =
     json_post [] ''{\"CallSid\":\"CA123\",\"CallStatus\":\"completed\",\"leadId\":{\"toString\":null}}''
       (JObj [(''CallSid'', JStr ''CA123''), (''CallStatus'', JStr ''completed''),
              (''leadId'', JObj [(''toString'', JNull)])])"

definition null_request :: request where
  "null_request = json_post [] ''null'' JNull"

definition checkStatus_request :: request where
  "checkStatus_request =
     json_post [] ''{\"action\":\"checkStatus\",\"callSid\":\"pending-sid\"}''
       (JObj [(''action'', JStr ''checkStatus''), (''callSid'', JStr ''pending-sid'')])"

definition endCall_request :: request where
  "endCall_request =
     json_post [] ''{\"action\":\"endCall\",\"callSid\":\"browser-call\"}''
       (JObj [(''action'', JStr ''endCall''), (''callSid'', JStr ''browser-call'')])"

definition hangupAll_request :: request where
  "hangupAll_request =
     json_post [] ''{\"action\":\"hangupAll\"}'' (JObj [(''action'', JStr ''hangupAll'')])"

section \<open>Properties\<close>

subsection \<open>The sample inputs\<close>

lemmas eval_defs = serve_def try_block_def parse_body_def classify_def handle_action_def
  with_client_def json_post_def form_post_def sample_env_def string_entries_def assign_all_def
  field_def isStatusCallback_def isConferenceCallback_def event_mentions_conference_def
  isClientInitiatedCall_def from_is_client_def searchParams_get_def js_startsWith_def
  status_log_error_def caller_id_set_def client_ready_def unset_def Let_def

lemmas classify_eval = classify_def isStatusCallback_def status_log_error_def
  isConferenceCallback_def event_mentions_conference_def isClientInitiatedCall_def
  from_is_client_def field_def js_startsWith_def searchParams_get_def Let_def

lemma caller_id_sample: "caller_id_set sample_env"
  by (simp add: caller_id_set_def unset_def sample_env_def)

lemma client_ready_sample: "client_ready sample_env"
  by (simp add: client_ready_def sample_env_def)

lemma caller_id_calm: "caller_id_set calm_env"
  by (simp add: caller_id_set_def unset_def sample_env_def calm_env_def)

lemma client_ready_calm: "client_ready calm_env"
  by (simp add: client_ready_def sample_env_def calm_env_def)

lemma method_json_post: "req_method (json_post q raw v) \<noteq> ''OPTIONS''"
  by (simp add: json_post_def)

lemma method_form_post: "req_method (form_post q raw es) \<noteq> ''OPTIONS''"
  by (simp add: form_post_def)

lemma parse_client_call_request:
  "parse_body e client_call_request =
     JObj [(''From'', JStr ''client:abc''), (''phoneNumber'', JStr ''5551234567''),
           (''CallSid'', JStr ''CA123''), (''CallStatus'', JStr ''ringing'')]"
  by (simp add: client_call_request_def parse_body_def form_post_def string_entries_def assign_all_def)

lemma parse_empty_number_request:
  "parse_body e empty_number_request =
     JObj [(''From'', JStr ''client:abc''), (''phoneNumber'', JStr []),
           (''CallSid'', JStr ''CA123''), (''CallStatus'', JStr ''ringing'')]"
  by (simp add: empty_number_request_def parse_body_def form_post_def string_entries_def assign_all_def)

lemma query_client_call_request: "req_query client_call_request = []"
  by (simp add: client_call_request_def form_post_def)

lemma query_empty_number_request: "req_query empty_number_request = []"
  by (simp add: empty_number_request_def form_post_def)

lemma parse_override_request:
  "parse_body e override_request =
     JObj [(''CallSid'', JStr ''CA123''), (''CallStatus'', JStr ''ringing'')]"
  by (simp add: override_request_def parse_body_def form_post_def string_entries_def assign_all_def)

lemma query_override_request: "req_query override_request = [(''CallStatus'', ''completed'')]"
  by (simp add: override_request_def form_post_def)

lemma parse_completed_request:
  "parse_body e completed_request =
     JObj [(''CallSid'', JStr ''CA123''), (''CallStatus'', JStr ''completed'')]"
  by (simp add: completed_request_def parse_body_def form_post_def string_entries_def assign_all_def)

lemma query_completed_request: "req_query completed_request = [(''leadId'', ''42'')]"
  by (simp add: completed_request_def form_post_def)

lemma parse_checkStatus_request:
  "parse_body e checkStatus_request =
     JObj [(''action'', JStr ''checkStatus''), (''callSid'', JStr ''pending-sid'')]"
  by (simp add: checkStatus_request_def parse_body_def json_post_def)

lemma parse_endCall_request:
  "parse_body e endCall_request =
     JObj [(''action'', JStr ''endCall''), (''callSid'', JStr ''browser-call'')]"
  by (simp add: endCall_request_def parse_body_def json_post_def)

lemma query_checkStatus_request: "req_query checkStatus_request = []"
  by (simp add: checkStatus_request_def json_post_def)

lemma query_endCall_request: "req_query endCall_request = []"
  by (simp add: endCall_request_def json_post_def)

lemma classify_hangupAll_request:
  "classify hangupAll_request (parse_body e hangupAll_request) = Inr (Some (JStr ''hangupAll''), False)"
  by (simp add: eval_defs hangupAll_request_def)

lemma classify_client_call_request:
  "classify client_call_request (parse_body e client_call_request)
       = Inr (Some (JStr ''clientCall''), True)"
  unfolding parse_client_call_request
  by (simp add: classify_eval)

lemma timeout_text: "string_of_nat DEFAULT_TIMEOUT = ''20''"
  by (simp add: DEFAULT_TIMEOUT_def string_of_nat.simps digit_char_def)

lemma formatted_5551234567: "formattedPhoneNumber (JStr ''5551234567'') = Inr ''+5551234567''"
  by (simp add: formattedPhoneNumber_def js_startsWith_def strip_non_digits_def is_digit_def)

subsection \<open>From the request to the branch\<close>

lemma classify_client_action:
  "classify req rd = Inr (a, c) \<Longrightarrow> c \<Longrightarrow> a = Some (JStr ''clientCall'')"
  by (auto simp: classify_def Let_def split: if_splits sum.splits option.splits)

lemma classify_other_action:
  "classify req rd = Inr (a, c) \<Longrightarrow> a \<noteq> Some (JStr ''clientCall'') \<Longrightarrow> \<not> c"
  using classify_client_action by blast

lemma serve_classified:
  assumes "req_method req \<noteq> ''OPTIONS''"
    and "classify req (parse_body env req) = Inr (a, c)"
  shows "serve env req =
     (case handle_action env req (parse_body env req) a c of
        Inr result \<Rightarrow> result
      | Inl error \<Rightarrow> (catch_handler error, []))"
  using assms by (simp add: serve_def try_block_def)

lemma handle_action_ready:
  assumes "caller_id_set env" and "client_ready env"
    and "a \<noteq> Some (JStr ''conferenceStatus'')" and "a \<noteq> Some (JStr ''clientCall'')"
    and "a \<noteq> Some (JStr ''getConfig'')" and "\<not> c"
  shows "\<exists>callerId. TWILIO_PHONE_NUMBER env = Some callerId \<and> callerId \<noteq> [] \<and>
           handle_action env req rd a c = with_client env req rd a callerId"
  using assms
  by (auto simp: handle_action_def caller_id_set_def client_ready_def unset_def
      split: option.splits)

lemma handle_action_clientCall:
  assumes "TWILIO_PHONE_NUMBER env = Some callerId" and "callerId \<noteq> []"
  shows "handle_action env req rd (Some (JStr ''clientCall'')) c =
     (case clientCall_handler env callerId rd of Inl e \<Rightarrow> Inl e | Inr r \<Rightarrow> Inr (r, []))"
  using assms by (simp add: handle_action_def)

lemma field_not_null: "field rd k = Some v \<Longrightarrow> rd \<noteq> JNull"
  by (auto simp: field_def)

subsection \<open>The response status\<close>

lemma status_xml_response: "status (xml_response vs) = 200"
  by (simp add: xml_response_def)

lemma status_json_response: "status (json_response v) = 200"
  by (simp add: json_response_def)

lemma status_json_failure: "status (json_failure m) = 200"
  by (simp add: json_failure_def status_json_response)

lemma status_catch_handler: "status (catch_handler e) = 200"
  by (simp add: catch_handler_def status_xml_response)

lemmas status_simps = status_xml_response status_json_response status_json_failure status_catch_handler

lemma status_error_payload: "status (error_payload e) = 200"
  by (simp add: error_payload_def status_json_response)

lemma status_clientCall: "clientCall_handler env c rd = Inr r \<Longrightarrow> status r = 200"
  by (auto simp: clientCall_handler_def Let_def status_simps split: option.splits if_splits sum.splits)

lemma status_makeCall: "status (fst (makeCall_handler env c rd)) = 200"
  by (auto simp: makeCall_handler_def Let_def status_simps split: option.splits if_splits sum.splits)

lemma status_statusCallback: "statusCallback_handler req rd = Inr r \<Longrightarrow> status r = 200"
  by (auto simp: statusCallback_handler_def Let_def status_simps split: option.splits)

lemma status_dialStatus: "dialStatus_handler env rd = Inr r \<Longrightarrow> status r = 200"
  by (auto simp: dialStatus_handler_def Let_def status_simps
      split: option.splits if_splits sum.splits)

lemma status_checkStatus: "checkStatus_handler env rd = Inr (r, ops) \<Longrightarrow> status r = 200"
  by (auto simp: checkStatus_handler_def status_simps status_error_payload
      split: option.splits sum.splits if_splits)

lemma status_endCall: "endCall_handler env rd = Inr (r, ops) \<Longrightarrow> status r = 200"
  by (auto simp: endCall_handler_def status_simps status_error_payload
      split: option.splits sum.splits if_splits)

lemma status_hangupAll: "status (fst (hangupAll_handler env)) = 200"
  by (auto simp: hangupAll_handler_def Let_def status_simps split: option.splits sum.splits)

lemma status_default: "default_handler env c rd a = Inr r \<Longrightarrow> status r = 200"
  by (auto simp: default_handler_def Let_def status_simps
      split: option.splits if_splits sum.splits bool.splits)

lemma status_with_client: "with_client env req rd a c = Inr (r, ops) \<Longrightarrow> status r = 200"
  unfolding with_client_def
  using status_makeCall[of env c rd] status_hangupAll[of env]
  by (auto split: if_splits sum.splits
      dest: status_default status_statusCallback status_dialStatus status_checkStatus status_endCall)

lemma status_handle_action: "handle_action env req rd a c = Inr (r, ops) \<Longrightarrow> status r = 200"
  unfolding handle_action_def missing_phone_number_response_def missing_credentials_response_def
    getConfig_handler_def
  by (auto simp: status_simps split: option.splits if_splits sum.splits
      dest: status_with_client status_clientCall)

lemma status_try_block: "try_block env req = Inr (r, ops) \<Longrightarrow> status r = 200"
  unfolding try_block_def Let_def
  by (auto split: sum.splits prod.splits dest: status_handle_action)

text \<open>
  Claim C2. Every request other than an OPTIONS preflight is answered with status 200,
  whatever the outcome: a success, a validation error, a provider error, the diagnostic
  for an unknown action, or an exception caught by the top-level \<^verbatim>\<open>catch\<close>.
\<close>

theorem serve_status_200:
  "req_method req \<noteq> ''OPTIONS'' \<Longrightarrow> status (fst (serve env req)) = 200"
  unfolding serve_def
  by (auto split: sum.splits simp: status_catch_handler dest: status_try_block)

text \<open>
  Witness for C2: a request whose handling ends in the top-level \<^verbatim>\<open>catch\<close>, and one
  that reaches the provider.
\<close>

theorem serve_status_200_witness:
  "req_method null_request \<noteq> ''OPTIONS''
   \<and> status (fst (serve sample_env null_request)) = 200
   \<and> req_method hangupAll_request \<noteq> ''OPTIONS''
   \<and> status (fst (serve sample_env hangupAll_request)) = 200"
proof -
  have m: "req_method null_request \<noteq> ''OPTIONS''"
    by (simp add: null_request_def method_json_post)
  have m': "req_method hangupAll_request \<noteq> ''OPTIONS''"
    by (simp add: hangupAll_request_def method_json_post)
  show ?thesis
    using serve_status_200 [OF m, of sample_env] serve_status_200 [OF m', of sample_env] m m'
    by simp
qed

text \<open>
  The diagnostic for an unknown action is a JSON body that names the action.
\<close>

lemma unknown_action_diagnostic:
  assumes "req_method req \<noteq> ''OPTIONS''"
    and "caller_id_set env" and "client_ready env"
    and "classify req (parse_body env req) = Inr (action, False)"
    and "action \<notin> Some ` JStr ` {''conferenceStatus'', ''clientCall'', ''getConfig'', ''makeCall'',
           ''statusCallback'', ''dialStatus'', ''checkStatus'', ''endCall'', ''hangupAll''}"
    and "truthy_opt action \<or> \<not> truthy_opt (field (parse_body env req) ''CallSid'')"
    and "from_is_client (parse_body env req) = Inr False"
    and "action_text action = Inr shown"
  shows "serve env req =
    (json_failure (''The requested action '' @ shown @ '' is not supported.''), [])"
proof -
  let ?rd = "parse_body env req"
  have a: "action \<noteq> Some (JStr ''conferenceStatus'')" "action \<noteq> Some (JStr ''clientCall'')"
    "action \<noteq> Some (JStr ''getConfig'')" "action \<noteq> Some (JStr ''makeCall'')"
    "action \<noteq> Some (JStr ''statusCallback'')" "action \<noteq> Some (JStr ''dialStatus'')"
    "action \<noteq> Some (JStr ''checkStatus'')" "action \<noteq> Some (JStr ''endCall'')"
    "action \<noteq> Some (JStr ''hangupAll'')"
    using assms(5) by auto
  obtain callerId where
    h: "handle_action env req ?rd action False = with_client env req ?rd action callerId"
    using handle_action_ready [OF assms(2,3) a(1,2,3), of False req ?rd] by blast
  have w: "with_client env req ?rd action callerId =
      Inr (json_failure (''The requested action '' @ shown @ '' is not supported.''), [])"
    using a assms(6,7,8)
    by (cases "truthy_opt action") (simp_all add: with_client_def default_handler_def)
  show ?thesis
    unfolding serve_classified [OF assms(1,4)] h w by simp
qed

subsection \<open>hangupAll\<close>

lemma first_rejection_None:
  "first_rejection ps = None \<longleftrightarrow> (\<forall>p \<in> set ps. snd p = None)"
  by (induction ps rule: first_rejection.induct) (auto split: option.splits)

lemma first_rejection_Some:
  "first_rejection ps = Some (t, e) \<Longrightarrow> (t, Some e) \<in> set ps"
  by (induction ps arbitrary: t e rule: first_rejection.induct)
     (auto split: option.splits if_splits)

lemma Promise_all_None:
  "Promise_all ps = None \<longleftrightarrow> (\<forall>p \<in> set ps. snd p = None)"
  by (simp add: Promise_all_def first_rejection_None)

lemma Promise_all_Some:
  "Promise_all ps = Some e \<Longrightarrow> \<exists>t. (t, Some e) \<in> set ps"
  by (auto simp: Promise_all_def dest: first_rejection_Some)

lemma hangupAll_issued:
  "calls_list env = Inr sids \<Longrightarrow>
   snd (hangupAll_handler env) = CallsList # map (\<lambda>sid. CallsUpdate (JStr sid)) sids"
  by (simp add: hangupAll_handler_def Let_def split: option.splits)

lemma hangupAll_all_succeed:
  assumes "calls_list env = Inr sids"
    and "\<forall>sid \<in> set sids. calls_update env (JStr sid) = None"
  shows "fst (hangupAll_handler env) =
     json_response (JObj [(''success'', JBool True),
       (''message'', JStr (''Terminated '' @ string_of_nat (length sids) @ '' active calls''))])"
proof -
  have "Promise_all (map (\<lambda>sid. (update_settles_at env (JStr sid), calls_update env (JStr sid))) sids) = None"
    using assms(2) by (simp add: Promise_all_None)
  then show ?thesis
    using assms(1) by (simp add: hangupAll_handler_def Let_def)
qed

lemma hangupAll_some_fails:
  assumes "calls_list env = Inr sids"
    and "\<exists>sid \<in> set sids. calls_update env (JStr sid) \<noteq> None"
  shows "\<exists>sid \<in> set sids. \<exists>e. calls_update env (JStr sid) = Some e \<and>
     fst (hangupAll_handler env) = json_failure (message_or e ''Failed to hang up all calls'')"
proof -
  let ?ps = "map (\<lambda>sid. (update_settles_at env (JStr sid), calls_update env (JStr sid))) sids"
  from assms(2) have "Promise_all ?ps \<noteq> None"
    by (auto simp: Promise_all_None)
  then obtain e where e: "Promise_all ?ps = Some e" by auto
  then obtain t where "(t, Some e) \<in> set ?ps"
    using Promise_all_Some by blast
  then obtain sid where "sid \<in> set sids" "calls_update env (JStr sid) = Some e"
    by auto
  moreover have "fst (hangupAll_handler env) = json_failure (message_or e ''Failed to hang up all calls'')"
    using assms(1) e by (simp add: hangupAll_handler_def Let_def)
  ultimately show ?thesis by blast
qed

text \<open>
  Claim C1 (amended). For the hangupAll action, when the provider lists N calls in
  progress, the handler starts the terminate instruction of every one of them and
  answers with status 200, whatever the instructions return. When all N succeed the
  payload is the success payload that reports N. When one or more fail, the payload is
  \<^verbatim>\<open>{success: false, error}\<close>, where the error is the message of a failed instruction,
  or \<^verbatim>\<open>Failed to hang up all calls\<close> when that message is empty.
\<close>

theorem hangupAll_attempts_all:
  assumes "req_method req \<noteq> ''OPTIONS''"
    and "caller_id_set env" and "client_ready env"
    and "classify req (parse_body env req) = Inr (Some (JStr ''hangupAll''), client)"
    and "calls_list env = Inr sids"
  shows "snd (serve env req) = CallsList # map (\<lambda>sid. CallsUpdate (JStr sid)) sids
    \<and> status (fst (serve env req)) = 200
    \<and> ((\<forall>sid \<in> set sids. calls_update env (JStr sid) = None) \<longrightarrow>
         fst (serve env req) =
           json_response (JObj [(''success'', JBool True),
             (''message'', JStr (''Terminated '' @ string_of_nat (length sids) @ '' active calls''))]))
    \<and> ((\<exists>sid \<in> set sids. calls_update env (JStr sid) \<noteq> None) \<longrightarrow>
         (\<exists>sid \<in> set sids. \<exists>e. calls_update env (JStr sid) = Some e \<and>
            fst (serve env req) = json_failure (message_or e ''Failed to hang up all calls'')))"
proof -
  have nc: "\<not> client"
    using classify_other_action [OF assms(4)] by simp
  obtain callerId where
    "handle_action env req (parse_body env req) (Some (JStr ''hangupAll'')) client
       = with_client env req (parse_body env req) (Some (JStr ''hangupAll'')) callerId"
    using handle_action_ready [OF assms(2,3) _ _ _ nc, of "Some (JStr ''hangupAll'')" req "parse_body env req"]
    by auto
  then have "serve env req = hangupAll_handler env"
    using serve_classified [OF assms(1,4)] by (simp add: with_client_def)
  then show ?thesis
    using hangupAll_issued [OF assms(5)] hangupAll_all_succeed [OF assms(5)]
      hangupAll_some_fails [OF assms(5)] status_hangupAll [of env]
    by simp
qed

text \<open>
  Witness for C1 (amended): three calls in progress, with a provider that refuses to end
  the second, and with a provider that ends all three.
\<close>

theorem hangupAll_attempts_all_witness:
  "req_method hangupAll_request \<noteq> ''OPTIONS''
   \<and> caller_id_set sample_env \<and> client_ready sample_env
   \<and> classify hangupAll_request (parse_body sample_env hangupAll_request)
       = Inr (Some (JStr ''hangupAll''), False)
   \<and> calls_list sample_env = Inr [''CA1'', ''CA2'', ''CA3'']
   \<and> calls_update sample_env (JStr ''CA2'') \<noteq> None
   \<and> snd (serve sample_env hangupAll_request) =
       [CallsList, CallsUpdate (JStr ''CA1''), CallsUpdate (JStr ''CA2''), CallsUpdate (JStr ''CA3'')]
   \<and> fst (serve sample_env hangupAll_request) = json_failure ''Call is not in-progress''
   \<and> calls_update calm_env (JStr ''CA1'') = None
   \<and> calls_update calm_env (JStr ''CA2'') = None
   \<and> calls_update calm_env (JStr ''CA3'') = None
   \<and> fst (serve calm_env hangupAll_request) =
       json_response (JObj [(''success'', JBool True), (''message'', JStr ''Terminated 3 active calls'')])"
proof -
  have m: "req_method hangupAll_request \<noteq> ''OPTIONS''"
    by (simp add: hangupAll_request_def method_json_post)
  have l: "calls_list sample_env = Inr [''CA1'', ''CA2'', ''CA3'']"
    by (simp add: sample_env_def)
  have l': "calls_list calm_env = Inr [''CA1'', ''CA2'', ''CA3'']"
    by (simp add: sample_env_def calm_env_def)
  have u: "calls_update sample_env = (\<lambda>sid. if sid = JStr ''CA2'' then Some (JsError ''Call is not in-progress'') else None)"
    by (simp add: sample_env_def)
  have u': "calls_update calm_env = (\<lambda>sid. None)"
    by (simp add: sample_env_def calm_env_def)
  have t: "string_of_nat (length [''CA1'', ''CA2'', ''CA3'']) = ''3''"
    by (simp add: string_of_nat.simps digit_char_def)
  have a: "snd (serve sample_env hangupAll_request) =
       [CallsList, CallsUpdate (JStr ''CA1''), CallsUpdate (JStr ''CA2''), CallsUpdate (JStr ''CA3'')]
     \<and> fst (serve sample_env hangupAll_request) = json_failure ''Call is not in-progress''"
    using hangupAll_attempts_all [OF m caller_id_sample client_ready_sample classify_hangupAll_request l]
    by (auto simp: u message_or_def)
  have b: "fst (serve calm_env hangupAll_request) =
       json_response (JObj [(''success'', JBool True), (''message'', JStr ''Terminated 3 active calls'')])"
    using hangupAll_attempts_all [OF m caller_id_calm client_ready_calm classify_hangupAll_request l']
    unfolding t by (simp add: u')
  show ?thesis
    using m caller_id_sample client_ready_sample classify_hangupAll_request [of sample_env] l a b
    by (simp add: u u')
qed

text \<open>
  Counterexample to C1 as stated: with three calls in progress and the second terminate
  instruction failing, all three instructions are started, but the payload is the
  failure payload, not one that reports three terminated calls.
\<close>

theorem hangupAll_second_failure_counterexample:
  "calls_list sample_env = Inr [''CA1'', ''CA2'', ''CA3'']
   \<and> calls_update sample_env (JStr ''CA2'') = Some (JsError ''Call is not in-progress'')
   \<and> serve sample_env hangupAll_request =
       (json_failure ''Call is not in-progress'',
        [CallsList, CallsUpdate (JStr ''CA1''), CallsUpdate (JStr ''CA2''), CallsUpdate (JStr ''CA3'')])
   \<and> fst (serve sample_env hangupAll_request) \<noteq>
       json_response (JObj [(''success'', JBool True), (''message'', JStr ''Terminated 3 active calls'')])"
  by (simp add: eval_defs hangupAll_request_def hangupAll_handler_def Promise_all_def
      json_failure_def json_response_def message_or_def)

subsection \<open>Calls from a browser client\<close>

lemma classify_client_flag:
  "classify req rd = Inr (a, c) \<Longrightarrow> isClientInitiatedCall rd = Inr c"
  by (auto simp: classify_def Let_def split: if_splits sum.splits option.splits)

text \<open>
  No exception is thrown while the action is resolved when the request data is not
  \<^verbatim>\<open>null\<close>, the log of line 162 can convert what it prints, and the values whose
  methods are called have them. A request whose fields are all strings is such a request.
\<close>

lemma classify_no_exception:
  assumes "rd \<noteq> JNull"
    and "isStatusCallback req rd \<longrightarrow> status_log_error rd = None"
    and "event_mentions_conference rd = Inr mentioned"
    and "from_is_client rd = Inr from_client"
  shows "\<exists>r. classify req rd = Inr r"
proof -
  have conf: "\<exists>b. isConferenceCallback rd a = Inr b" for a
    using assms(3) by (auto simp: isConferenceCallback_def)
  have cl: "\<exists>c. isClientInitiatedCall rd = Inr c"
    using assms(4) by (simp add: isClientInitiatedCall_def)
  have noerr: "isConferenceCallback rd a \<noteq> Inl e" "isClientInitiatedCall rd \<noteq> Inl e" for a e
    using conf [of a] cl by auto
  show ?thesis
    using assms(1,2) noerr
    by (auto simp: classify_def Let_def split: sum.split option.split)
qed

lemma string_field_converts:
  "\<forall>v. field rd k = Some v \<longrightarrow> (\<exists>s. v = JStr s) \<Longrightarrow> \<exists>s. js_to_string_opt (field rd k) = Inr s"
  by (cases "field rd k") auto

lemma classify_no_exception_strings:
  assumes "rd \<noteq> JNull"
    and "\<forall>k v. field rd k = Some v \<longrightarrow> (\<exists>s. v = JStr s)"
  shows "\<exists>r. classify req rd = Inr r"
proof -
  have str: "\<forall>v. field rd k = Some v \<longrightarrow> (\<exists>s. v = JStr s)" for k
    using assms(2) by blast
  obtain s1 s2 where "js_to_string_opt (field rd ''CallSid'') = Inr s1"
    "js_to_string_opt (field rd ''CallStatus'') = Inr s2"
    using string_field_converts [OF str] by blast
  then have log: "status_log_error rd = None"
    by (simp add: status_log_error_def)
  have ev: "\<exists>b. event_mentions_conference rd = Inr b"
    using str [of "''StatusCallbackEvent''"]
    by (auto simp: event_mentions_conference_def split: option.splits)
  have fr: "\<exists>b. from_is_client rd = Inr b"
    using str [of "''From''"]
    by (auto simp: from_is_client_def split: option.splits)
  from ev fr show ?thesis
    using classify_no_exception [OF assms(1)] log by blast
qed

text \<open>
  Claim C3 (amended). When the \<^verbatim>\<open>From\<close> field is a string that starts with
  \<^verbatim>\<open>client:\<close>, the \<^verbatim>\<open>phoneNumber\<close> field is truthy (for a form field: not
  empty) and no exception is thrown while the action is resolved, the action is resolved
  to \<^verbatim>\<open>clientCall\<close>. This overrides the \<^verbatim>\<open>statusCallback\<close> that a call identifier
  and a status give. It holds for a request with no explicit action, and for one with an
  explicit action too.
\<close>

theorem classify_clientCall_override:
  assumes "field rd ''From'' = Some (JStr caller)"
    and "js_startsWith caller ''client:''"
    and "truthy_opt (field rd ''phoneNumber'')"
    and "\<forall>e. classify req rd \<noteq> Inl e"
  shows "classify req rd = Inr (Some (JStr ''clientCall''), True)"
proof -
  have ne: "caller \<noteq> []"
    using assms(2) by (auto simp: js_startsWith_def)
  have cl: "isClientInitiatedCall rd = Inr True"
    using assms(1,2,3) ne by (simp add: isClientInitiatedCall_def from_is_client_def)
  obtain a c where r: "classify req rd = Inr (a, c)"
    using assms(4) by (cases "classify req rd") auto
  have "c"
    using classify_client_flag [OF r] cl by simp
  then show ?thesis
    using classify_client_action [OF r] r by simp
qed

text \<open>
  Witness for C3 (amended): a form request with no action that also carries
  \<^verbatim>\<open>CallSid\<close> and \<^verbatim>\<open>CallStatus\<close>, so that the status-callback test holds as well.
\<close>

theorem classify_clientCall_override_witness:
  "searchParams_get client_call_request ''action'' = None
   \<and> field (parse_body sample_env client_call_request) ''From'' = Some (JStr ''client:abc'')
   \<and> js_startsWith ''client:abc'' ''client:''
   \<and> truthy_opt (field (parse_body sample_env client_call_request) ''phoneNumber'')
   \<and> isStatusCallback client_call_request (parse_body sample_env client_call_request)
   \<and> classify client_call_request (parse_body sample_env client_call_request)
       = Inr (Some (JStr ''clientCall''), True)"
proof -
  let ?rd = "parse_body sample_env client_call_request"
  have f: "field ?rd ''From'' = Some (JStr ''client:abc'')"
    by (simp add: parse_client_call_request field_def)
  have s: "js_startsWith ''client:abc'' ''client:''"
    by (simp add: js_startsWith_def)
  have p: "truthy_opt (field ?rd ''phoneNumber'')"
    by (simp add: parse_client_call_request field_def)
  have nn: "?rd \<noteq> JNull"
    by (simp add: parse_client_call_request)
  have strs: "\<forall>k v. field ?rd k = Some v \<longrightarrow> (\<exists>s. v = JStr s)"
    by (auto simp: parse_client_call_request field_def split: if_splits)
  have e: "\<forall>e. classify client_call_request ?rd \<noteq> Inl e"
    using classify_no_exception_strings [OF nn strs, of client_call_request] by auto
  have i: "isStatusCallback client_call_request ?rd"
    by (simp add: parse_client_call_request field_def isStatusCallback_def)
  have a: "searchParams_get client_call_request ''action'' = None"
    by (simp add: searchParams_get_def query_client_call_request)
  show ?thesis
    using classify_clientCall_override [OF f s p e] f s p i a
    by simp
qed

text \<open>
  Counterexample to C3 as stated: the same request with an empty \<^verbatim>\<open>phoneNumber\<close>
  field. The field is there, but it is not truthy, and the action stays
  \<^verbatim>\<open>statusCallback\<close>.
\<close>

theorem classify_empty_phoneNumber_counterexample:
  "searchParams_get empty_number_request ''action'' = None
   \<and> field (parse_body sample_env empty_number_request) ''action'' = None
   \<and> field (parse_body sample_env empty_number_request) ''From'' = Some (JStr ''client:abc'')
   \<and> js_startsWith ''client:abc'' ''client:''
   \<and> field (parse_body sample_env empty_number_request) ''phoneNumber'' = Some (JStr [])
   \<and> classify empty_number_request (parse_body sample_env empty_number_request)
       = Inr (Some (JStr ''statusCallback''), False)"
  unfolding parse_empty_number_request
  by (simp add: classify_eval query_empty_number_request)

text \<open>
  Requests on which an exception is thrown while the action is resolved, although
  \<^verbatim>\<open>From\<close> and \<^verbatim>\<open>phoneNumber\<close> are as in C3: a \<^verbatim>\<open>StatusCallbackEvent\<close> that has
  no \<^verbatim>\<open>includes\<close> (line 178), and a call identifier that the log of line 162 cannot
  convert.
\<close>

lemma classify_numeric_event_throws:
  "classify numeric_event_request (parse_body sample_env numeric_event_request)
     = Inl (JsError ''requestData.StatusCallbackEvent?.includes is not a function'')"
  by (simp add: numeric_event_request_def parse_body_def json_post_def classify_eval
      not_a_function_def)

lemma classify_unloggable_sid_throws:
  "classify unloggable_sid_request (parse_body sample_env unloggable_sid_request)
     = Inl (JsError ''Cannot convert object to primitive value'')"
  by (simp add: unloggable_sid_request_def parse_body_def json_post_def classify_eval
      cannot_convert_def)

lemma xml_legal_20: "xml_legal ''20''"
  by (simp add: xml_legal_def xml_illegal_char_def)

lemma xml_legal_POST: "xml_legal ''POST''"
  by (simp add: xml_legal_def xml_illegal_char_def)

lemma xml_legal_number: "xml_legal ''+5551234567''"
  by (simp add: xml_legal_def xml_illegal_char_def)

lemma xml_legal_sample_caller: "xml_legal ''+15550100''"
  by (simp add: xml_legal_def xml_illegal_char_def)

lemma xml_legal_append: "xml_legal (s @ t) \<longleftrightarrow> xml_legal s \<and> xml_legal t"
  by (simp add: xml_legal_def)

lemma xml_legal_dial_url:
  "xml_legal ''https://imrmboyczebjlbnkgjns.supabase.co/functions/v1/twilio-voice?action=dialStatus&leadId=''"
  by (simp add: xml_legal_def xml_illegal_char_def)

lemma xml_legal_unknown: "xml_legal ''unknown''"
  by (simp add: xml_legal_def xml_illegal_char_def)

text \<open>The two outcomes of the inner \<^verbatim>\<open>try\<close> of lines 268-296.\<close>

lemma clientCall_markup_built:
  assumes "js_to_string_opt leadId = Inr lead"
    and "xml_legal callerId"
    and "xml_legal (''https://imrmboyczebjlbnkgjns.supabase.co/functions/v1/twilio-voice?action=dialStatus&leadId='' @ lead)"
  shows "clientCall_markup env callerId leadId ''+5551234567'' =
     Inr [Say ''Connecting your call. Please wait.'',
          Dial [(''callerId'', callerId),
                (''timeout'', ''20''),
                (''action'', ''https://imrmboyczebjlbnkgjns.supabase.co/functions/v1/twilio-voice?action=dialStatus&leadId='' @ lead),
                (''method'', ''POST'')]
               (NumberNoun ''+5551234567'')]"
  unfolding clientCall_markup_def Let_def timeout_text assms(1)
  using assms(2,3) by (simp add: xml_legal_20 xml_legal_POST xml_legal_number)

lemma clientCall_markup_throws:
  assumes "js_to_string_opt leadId = Inl e \<or> \<not> xml_legal callerId
      \<or> (js_to_string_opt leadId = Inr lead \<and>
          \<not> xml_legal (''https://imrmboyczebjlbnkgjns.supabase.co/functions/v1/twilio-voice?action=dialStatus&leadId='' @ lead))"
  shows "\<exists>err. clientCall_markup env callerId leadId formatted = Inl err"
proof (cases "js_to_string_opt leadId")
  case (Inl a)
  then show ?thesis by (simp add: clientCall_markup_def)
next
  case (Inr l)
  with assms have "\<not> xml_legal callerId
      \<or> \<not> xml_legal (''https://imrmboyczebjlbnkgjns.supabase.co/functions/v1/twilio-voice?action=dialStatus&leadId='' @ l)"
    by auto
  then show ?thesis
    unfolding clientCall_markup_def Let_def timeout_text Inr
    by (auto simp: xml_legal_20)
qed

lemma clientCall_handler_5551234567:
  assumes "field rd ''phoneNumber'' = Some (JStr ''5551234567'')"
  shows "clientCall_handler env callerId rd =
     (case clientCall_markup env callerId
             (js_or (field rd ''leadId'') (Some (JStr ''unknown''))) ''+5551234567'' of
        Inr twiml \<Rightarrow> Inr (xml_response twiml)
      | Inl err \<Rightarrow>
          Inr (xml_response
            [Say ''Sorry, there was an error connecting your call. Please try again later.'']))"
  unfolding clientCall_handler_def Let_def assms
  by (simp only: option.case truthy.simps formatted_5551234567 sum.case) simp

text \<open>
  Claim C5 (amended). For a client-initiated call whose \<^verbatim>\<open>phoneNumber\<close> is
  \<^verbatim>\<open>5551234567\<close>, the number is formatted by putting \<^verbatim>\<open>+\<close> in front of its digits.
  When the markup is built without an exception, it speaks the wait message and dials
  \<^verbatim>\<open>+5551234567\<close> with the configured caller ID; no country code is added. When building
  it throws, because the lead reference cannot be converted to a string or because the
  caller ID or the callback URL holds a character the builder refuses, the inner
  \<^verbatim>\<open>catch\<close> answers the spoken apology, which dials nothing.
\<close>

theorem clientCall_dials_plus_digits:
  assumes "req_method req \<noteq> ''OPTIONS''"
    and "classify req (parse_body env req) = Inr (Some (JStr ''clientCall''), client)"
    and "TWILIO_PHONE_NUMBER env = Some callerId" and "callerId \<noteq> []"
    and "field (parse_body env req) ''phoneNumber'' = Some (JStr ''5551234567'')"
    and "leadId = js_or (field (parse_body env req) ''leadId'') (Some (JStr ''unknown''))"
  shows "(js_to_string_opt leadId = Inr lead \<and> xml_legal callerId
          \<and> xml_legal (''https://imrmboyczebjlbnkgjns.supabase.co/functions/v1/twilio-voice?action=dialStatus&leadId='' @ lead)
          \<longrightarrow> serve env req =
               (xml_response
                  [Say ''Connecting your call. Please wait.'',
                   Dial [(''callerId'', callerId),
                         (''timeout'', ''20''),
                         (''action'', ''https://imrmboyczebjlbnkgjns.supabase.co/functions/v1/twilio-voice?action=dialStatus&leadId='' @ lead),
                         (''method'', ''POST'')]
                        (NumberNoun ''+5551234567'')], []))
       \<and> (js_to_string_opt leadId = Inl e \<or> \<not> xml_legal callerId
          \<or> (js_to_string_opt leadId = Inr lead
              \<and> \<not> xml_legal (''https://imrmboyczebjlbnkgjns.supabase.co/functions/v1/twilio-voice?action=dialStatus&leadId='' @ lead))
          \<longrightarrow> serve env req =
               (xml_response
                  [Say ''Sorry, there was an error connecting your call. Please try again later.''], []))"
proof -
  have s: "serve env req =
      (case clientCall_handler env callerId (parse_body env req) of
         Inl e \<Rightarrow> (catch_handler e, []) | Inr r \<Rightarrow> (r, []))"
    unfolding serve_classified [OF assms(1,2)] handle_action_clientCall [OF assms(3,4)]
    by (simp split: sum.split)
  have h: "clientCall_handler env callerId (parse_body env req) =
     (case clientCall_markup env callerId leadId ''+5551234567'' of
        Inr twiml \<Rightarrow> Inr (xml_response twiml)
      | Inl err \<Rightarrow>
          Inr (xml_response
            [Say ''Sorry, there was an error connecting your call. Please try again later.'']))"
    unfolding assms(6) by (rule clientCall_handler_5551234567 [OF assms(5)])
  show ?thesis
  proof (intro conjI impI)
    assume "js_to_string_opt leadId = Inr lead \<and> xml_legal callerId
          \<and> xml_legal (''https://imrmboyczebjlbnkgjns.supabase.co/functions/v1/twilio-voice?action=dialStatus&leadId='' @ lead)"
    then have "clientCall_markup env callerId leadId ''+5551234567'' =
       Inr [Say ''Connecting your call. Please wait.'',
          Dial [(''callerId'', callerId),
                (''timeout'', ''20''),
                (''action'', ''https://imrmboyczebjlbnkgjns.supabase.co/functions/v1/twilio-voice?action=dialStatus&leadId='' @ lead),
                (''method'', ''POST'')]
               (NumberNoun ''+5551234567'')]"
      using clientCall_markup_built by blast
    then show "serve env req =
               (xml_response
                  [Say ''Connecting your call. Please wait.'',
                   Dial [(''callerId'', callerId),
                         (''timeout'', ''20''),
                         (''action'', ''https://imrmboyczebjlbnkgjns.supabase.co/functions/v1/twilio-voice?action=dialStatus&leadId='' @ lead),
                         (''method'', ''POST'')]
                        (NumberNoun ''+5551234567'')], [])"
      unfolding s h by simp
  next
    assume "js_to_string_opt leadId = Inl e \<or> \<not> xml_legal callerId
          \<or> (js_to_string_opt leadId = Inr lead
              \<and> \<not> xml_legal (''https://imrmboyczebjlbnkgjns.supabase.co/functions/v1/twilio-voice?action=dialStatus&leadId='' @ lead))"
    then obtain err where "clientCall_markup env callerId leadId ''+5551234567'' = Inl err"
      using clientCall_markup_throws by blast
    then show "serve env req =
               (xml_response
                  [Say ''Sorry, there was an error connecting your call. Please try again later.''], [])"
      unfolding s h by simp
  qed
qed

lemma parse_unloggable_lead_call_request:
  "parse_body e unloggable_lead_call_request =
     JObj [(''action'', JStr ''clientCall''), (''phoneNumber'', JStr ''5551234567''),
           (''leadId'', JObj [(''toString'', JNull)])]"
  by (simp add: unloggable_lead_call_request_def parse_body_def json_post_def)

lemma query_unloggable_lead_call_request: "req_query unloggable_lead_call_request = []"
  by (simp add: unloggable_lead_call_request_def json_post_def)

lemma classify_unloggable_lead_call_request:
  "classify unloggable_lead_call_request (parse_body e unloggable_lead_call_request)
     = Inr (Some (JStr ''clientCall''), False)"
  unfolding parse_unloggable_lead_call_request
  by (simp add: classify_eval query_unloggable_lead_call_request)

text \<open>
  Witness for C5 (amended): a request with no lead reference, and one whose lead
  reference cannot be converted to a string.
\<close>

theorem clientCall_dials_plus_digits_witness:
  "req_method client_call_request \<noteq> ''OPTIONS''
   \<and> classify client_call_request (parse_body sample_env client_call_request)
       = Inr (Some (JStr ''clientCall''), True)
   \<and> TWILIO_PHONE_NUMBER sample_env = Some ''+15550100''
   \<and> field (parse_body sample_env client_call_request) ''phoneNumber'' = Some (JStr ''5551234567'')
   \<and> dial_targets (case markup (fst (serve sample_env client_call_request)) of Some vs \<Rightarrow> vs | None \<Rightarrow> [])
       = [''+5551234567'']
   \<and> req_method unloggable_lead_call_request \<noteq> ''OPTIONS''
   \<and> classify unloggable_lead_call_request (parse_body sample_env unloggable_lead_call_request)
       = Inr (Some (JStr ''clientCall''), False)
   \<and> field (parse_body sample_env unloggable_lead_call_request) ''phoneNumber''
       = Some (JStr ''5551234567'')
   \<and> js_to_string_opt (field (parse_body sample_env unloggable_lead_call_request) ''leadId'')
       = Inl cannot_convert
   \<and> serve sample_env unloggable_lead_call_request =
       (xml_response
          [Say ''Sorry, there was an error connecting your call. Please try again later.''], [])"
proof -
  have m: "req_method client_call_request \<noteq> ''OPTIONS''"
    by (simp add: client_call_request_def method_form_post)
  have m': "req_method unloggable_lead_call_request \<noteq> ''OPTIONS''"
    by (simp add: unloggable_lead_call_request_def method_json_post)
  have p: "TWILIO_PHONE_NUMBER sample_env = Some ''+15550100''"
    by (simp add: sample_env_def)
  have n: "''+15550100'' \<noteq> []" by simp
  have f: "field (parse_body sample_env client_call_request) ''phoneNumber'' = Some (JStr ''5551234567'')"
    by (simp add: parse_client_call_request field_def)
  have f': "field (parse_body sample_env unloggable_lead_call_request) ''phoneNumber''
       = Some (JStr ''5551234567'')"
    by (simp add: parse_unloggable_lead_call_request field_def)
  have l: "js_or (field (parse_body sample_env client_call_request) ''leadId'') (Some (JStr ''unknown''))
      = Some (JStr ''unknown'')"
    by (simp add: parse_client_call_request field_def)
  have l': "js_or (field (parse_body sample_env unloggable_lead_call_request) ''leadId'') (Some (JStr ''unknown''))
      = Some (JObj [(''toString'', JNull)])"
    by (simp add: parse_unloggable_lead_call_request field_def)
  have c': "js_to_string_opt (field (parse_body sample_env unloggable_lead_call_request) ''leadId'')
       = Inl cannot_convert"
    by (simp add: parse_unloggable_lead_call_request field_def)
  have ok: "js_to_string_opt (Some (JStr ''unknown'')) = Inr ''unknown'' \<and> xml_legal ''+15550100''
      \<and> xml_legal (''https://imrmboyczebjlbnkgjns.supabase.co/functions/v1/twilio-voice?action=dialStatus&leadId='' @ ''unknown'')"
    by (simp only: xml_legal_append xml_legal_dial_url xml_legal_unknown xml_legal_sample_caller
        js_to_string_opt.simps js_to_string.simps simp_thms)
  have bad: "js_to_string_opt (Some (JObj [(''toString'', JNull)])) = Inl cannot_convert"
    by simp
  have a: "serve sample_env client_call_request =
               (xml_response
                  [Say ''Connecting your call. Please wait.'',
                   Dial [(''callerId'', ''+15550100''),
                         (''timeout'', ''20''),
                         (''action'', ''https://imrmboyczebjlbnkgjns.supabase.co/functions/v1/twilio-voice?action=dialStatus&leadId='' @ ''unknown''),
                         (''method'', ''POST'')]
                        (NumberNoun ''+5551234567'')], [])"
    using clientCall_dials_plus_digits [OF m classify_client_call_request p n f l [symmetric],
        of "''unknown''"] ok
    by blast
  have b: "serve sample_env unloggable_lead_call_request =
       (xml_response
          [Say ''Sorry, there was an error connecting your call. Please try again later.''], [])"
    using clientCall_dials_plus_digits [OF m' classify_unloggable_lead_call_request p n f' l' [symmetric],
        of _ cannot_convert] bad
    by blast
  have d: "dial_targets (case markup (fst (serve sample_env client_call_request)) of Some vs \<Rightarrow> vs | None \<Rightarrow> [])
       = [''+5551234567'']"
    unfolding a by (simp add: xml_response_def)
  show ?thesis
    using m m' classify_client_call_request [of sample_env]
      classify_unloggable_lead_call_request [of sample_env] p f f' c' b d
    by simp
qed

lemma serve_client_call_request:
  "serve sample_env client_call_request =
     (xml_response
         [Say ''Connecting your call. Please wait.'',
          Dial [(''callerId'', ''+15550100''), (''timeout'', ''20''),
                (''action'', ''https://imrmboyczebjlbnkgjns.supabase.co/functions/v1/twilio-voice?action=dialStatus&leadId=unknown''),
                (''method'', ''POST'')]
               (NumberNoun ''+5551234567'')], [])"
proof -
  have h: "handle_action sample_env client_call_request (parse_body sample_env client_call_request)
        (Some (JStr ''clientCall'')) True =
      (case clientCall_handler sample_env ''+15550100'' (parse_body sample_env client_call_request) of
         Inl e \<Rightarrow> Inl e | Inr r \<Rightarrow> Inr (r, []))"
    by (rule handle_action_clientCall) (simp_all add: sample_env_def)
  have f: "field (parse_body sample_env client_call_request) ''phoneNumber'' = Some (JStr ''5551234567'')"
    by (simp add: parse_client_call_request field_def)
  have l: "js_or (field (parse_body sample_env client_call_request) ''leadId'') (Some (JStr ''unknown''))
      = Some (JStr ''unknown'')"
    by (simp add: parse_client_call_request field_def)
  have k: "clientCall_markup sample_env ''+15550100'' (Some (JStr ''unknown'')) ''+5551234567'' =
     Inr [Say ''Connecting your call. Please wait.'',
          Dial [(''callerId'', ''+15550100''),
                (''timeout'', ''20''),
                (''action'', ''https://imrmboyczebjlbnkgjns.supabase.co/functions/v1/twilio-voice?action=dialStatus&leadId='' @ ''unknown''),
                (''method'', ''POST'')]
               (NumberNoun ''+5551234567'')]"
    by (rule clientCall_markup_built)
       (simp_all only: xml_legal_append xml_legal_dial_url xml_legal_unknown xml_legal_sample_caller
          js_to_string_opt.simps js_to_string.simps simp_thms)
  have c: "clientCall_handler sample_env ''+15550100'' (parse_body sample_env client_call_request) =
      Inr (xml_response
         [Say ''Connecting your call. Please wait.'',
          Dial [(''callerId'', ''+15550100''), (''timeout'', ''20''),
                (''action'', ''https://imrmboyczebjlbnkgjns.supabase.co/functions/v1/twilio-voice?action=dialStatus&leadId=unknown''),
                (''method'', ''POST'')]
               (NumberNoun ''+5551234567'')])"
    unfolding clientCall_handler_5551234567 [OF f] l k by simp
  have m: "req_method client_call_request \<noteq> ''OPTIONS''"
    by (simp add: client_call_request_def method_form_post)
  show ?thesis
    unfolding serve_classified [OF m classify_client_call_request] h c by simp
qed

text \<open>
  Counterexample to C5 as stated: the only number the markup dials is
  \<^verbatim>\<open>+5551234567\<close>; it does not dial \<^verbatim>\<open>+15551234567\<close>.
\<close>

theorem clientCall_dial_target_counterexample:
  "classify client_call_request (parse_body sample_env client_call_request)
       = Inr (Some (JStr ''clientCall''), True)
   \<and> field (parse_body sample_env client_call_request) ''phoneNumber'' = Some (JStr ''5551234567'')
   \<and> dial_targets (case markup (fst (serve sample_env client_call_request)) of Some vs \<Rightarrow> vs | None \<Rightarrow> [])
       = [''+5551234567'']
   \<and> ''+15551234567'' \<notin> set (dial_targets
         (case markup (fst (serve sample_env client_call_request)) of Some vs \<Rightarrow> vs | None \<Rightarrow> []))"
  unfolding serve_client_call_request classify_client_call_request
  by (simp add: parse_client_call_request field_def xml_response_def)

subsection \<open>The request body\<close>

text \<open>
  Claim C4, at the input where the code departs from it. A request that declares
  \<^verbatim>\<open>application/json\<close> and whose body is the JSON text \<^verbatim>\<open>null\<close> parses, and
  \<^verbatim>\<open>requestData\<close> becomes \<^verbatim>\<open>null\<close>, which is no key/value map and not the empty
  map either. The next property read throws.
\<close>

theorem parse_body_json_null:
  "req_method null_request = ''POST''
   \<and> req_content_type null_request = Some ''application/json''
   \<and> req_json null_request = Inr JNull
   \<and> parse_body sample_env null_request = JNull
   \<and> parse_body sample_env null_request \<noteq> JObj []
   \<and> try_block sample_env null_request
       = Inl (JsError (''Cannot read properties of null (reading '' @ [CHR 0x27] @ ''action'' @ [CHR 0x27] @ '')''))"
  by (simp add: try_block_def parse_body_def classify_def null_request_def json_post_def
      null_read_error_def)

text \<open>
  Elsewhere the parsing does as C4 says: a body that no strategy parses gives the empty
  map, and the form strategies give a map.
\<close>

lemma parse_body_nothing_parsed:
  assumes "req_json req = Inl e1" and "req_formData req = Inl e2"
    and "req_text_again req = Inl e3" and "req_text req = Inl e4"
  shows "parse_body env req = JObj []"
  using assms by (simp add: parse_body_def Let_def)

lemma parse_body_is_map_or_json:
  "(\<exists>kvs. parse_body env req = JObj kvs)
   \<or> req_json req = Inr (parse_body env req)
   \<or> (\<exists>t. req_text req = Inr t \<and> JSON_parse env t = Inr (parse_body env req))"
  by (auto simp: parse_body_def Let_def split: sum.splits option.splits)

subsection \<open>Missing configuration\<close>

text \<open>
  Claim C7, at the input where the code departs from it. With no caller ID configured,
  the request of C4 is answered by the top-level \<^verbatim>\<open>catch\<close> with a JSON body, not
  with the spoken apology: the property read throws before the configuration is looked
  at.
\<close>

theorem missing_caller_id_null_body:
  "req_method null_request \<noteq> ''OPTIONS''
   \<and> TWILIO_PHONE_NUMBER env_without_caller_id = None
   \<and> markup (fst (serve env_without_caller_id null_request)) = None
   \<and> content_type (fst (serve env_without_caller_id null_request)) = Some ''application/json''
   \<and> serve env_without_caller_id null_request =
       (json_failure (''Cannot read properties of null (reading '' @ [CHR 0x27] @ ''action'' @ [CHR 0x27] @ '')''), [])"
  by (simp add: serve_def try_block_def parse_body_def classify_def null_request_def json_post_def
      null_read_error_def env_without_caller_id_def sample_env_def
      catch_handler_def json_failure_def json_response_def message_or_def content_type_def
      corsHeaders_def)

text \<open>
  When the action is resolved without an exception, the code does as C7 says: without a
  caller ID every request gets the spoken apology, and without credentials every action
  that needs the client does.
\<close>

lemma missing_caller_id_apology:
  assumes "req_method req \<noteq> ''OPTIONS''"
    and "classify req (parse_body env req) = Inr (action, client)"
    and "\<not> caller_id_set env"
  shows "serve env req =
    (xml_response [Say ''There was a configuration error. The system is missing a phone number to use as caller ID.''], [])"
  using assms(3) serve_classified [OF assms(1,2)]
  by (auto simp: handle_action_def caller_id_set_def unset_def missing_phone_number_response_def
      split: option.splits)

lemma missing_credentials_apology:
  assumes "req_method req \<noteq> ''OPTIONS''"
    and "classify req (parse_body env req) = Inr (action, client)"
    and "caller_id_set env"
    and "unset (TWILIO_ACCOUNT_SID env) \<or> unset (TWILIO_AUTH_TOKEN env)"
    and "action \<noteq> Some (JStr ''conferenceStatus'')" and "action \<noteq> Some (JStr ''clientCall'')"
    and "action \<noteq> Some (JStr ''getConfig'')"
  shows "serve env req =
    (xml_response [Say ''There was a configuration error with the Twilio credentials.''], [])"
proof -
  have "\<not> client"
    using classify_other_action [OF assms(2,6)] .
  then show ?thesis
    using assms(3-7) serve_classified [OF assms(1,2)]
    by (auto simp: handle_action_def caller_id_set_def unset_def missing_credentials_response_def
      split: option.splits)
qed

subsection \<open>Status callbacks\<close>

lemma digit_char_value: "d < 10 \<Longrightarrow> of_char (digit_char d) = 48 + d"
proof -
  assume "d < 10"
  then have "d \<in> {0, 1, 2, 3, 4, 5, 6, 7, 8, 9}" by auto
  then show ?thesis by (auto simp: digit_char_def)
qed

lemma digits_value_string_of_nat: "digits_value (string_of_nat n) = n"
proof (induction n rule: string_of_nat.induct)
  case (1 n)
  show ?case
  proof (cases "n < 10")
    case True
    then show ?thesis
      by (subst string_of_nat.simps) (simp add: digits_value_def digit_char_value)
  next
    case False
    with 1 have ih: "digits_value (string_of_nat (n div 10)) = n div 10" by simp
    from False show ?thesis
      using ih
      by (subst string_of_nat.simps) (simp add: digits_value_def digit_char_value)
  qed
qed

lemma inj_string_of_nat: "inj string_of_nat"
  by (rule inj_on_inverseI [where g = digits_value]) (rule digits_value_string_of_nat)

lemma map_of_rev_distinct:
  "distinct (map fst xs) \<Longrightarrow> map_of (rev xs) = map_of xs"
proof (induction xs)
  case Nil
  then show ?case by simp
next
  case (Cons x xs)
  then have "fst x \<notin> dom (map_of xs)"
    by (simp add: dom_map_of_conv_image_fst)
  with Cons show ?case
    by (auto simp: map_add_def fun_eq_iff split: option.splits)
qed

lemma map_of_assign_all:
  "map_of (assign_all es obj) k =
     (case map_of (rev es) k of Some v \<Rightarrow> Some v | None \<Rightarrow> map_of obj k)"
proof (induction es arbitrary: obj)
  case Nil
  then show ?case by (simp add: assign_all_def)
next
  case (Cons e es)
  obtain k' v' where e: "e = (k', v')" by (cases e)
  have "assign_all (e # es) obj = assign_all es (AList.update k' v' obj)"
    by (simp add: assign_all_def e)
  then show ?case
    using Cons.IH [of "AList.update k' v' obj"]
    by (auto simp: e update_conv' map_add_def split: option.splits)
qed

lemma distinct_own_props: "distinct (map fst (own_props v))"
proof (cases v)
  case (JArr xs)
  then show ?thesis
    by (simp add: distinct_map inj_string_of_nat [THEN inj_on_subset])
next
  case (JStr s)
  then show ?thesis
    by (simp add: distinct_map inj_string_of_nat [THEN inj_on_subset])
qed simp_all

lemma spread_takes_body_value:
  "field rd k = Some v \<Longrightarrow> map_of (assign_all (own_props rd) obj) k = Some v"
  by (simp add: map_of_assign_all map_of_rev_distinct distinct_own_props field_def)

lemma spread_keeps_other_keys:
  "field rd k = None \<Longrightarrow> map_of (assign_all (own_props rd) obj) k = map_of obj k"
  by (simp add: map_of_assign_all map_of_rev_distinct distinct_own_props field_def)

text \<open>
  Claim C9. In the merged \<^verbatim>\<open>callbackData\<close> of the status-callback branch, a key that
  is both a query parameter and a property of the body has the body's value.
\<close>

theorem callbackData_body_precedence:
  assumes "k \<in> fst ` set (req_query req)"
    and "field rd k = Some v"
  shows "map_of (callbackData req rd) k = Some v"
  using assms(2) by (simp add: callbackData_def Let_def spread_takes_body_value)

text \<open>
  Witness for C9: \<^verbatim>\<open>CallStatus\<close> is \<^verbatim>\<open>completed\<close> in the query and
  \<^verbatim>\<open>ringing\<close> in the body.
\<close>

theorem callbackData_body_precedence_witness:
  "''CallStatus'' \<in> fst ` set (req_query override_request)
   \<and> map_of (req_query override_request) ''CallStatus'' = Some ''completed''
   \<and> field (parse_body sample_env override_request) ''CallStatus'' = Some (JStr ''ringing'')
   \<and> map_of (callbackData override_request (parse_body sample_env override_request)) ''CallStatus''
       = Some (JStr ''ringing'')"
proof -
  have q: "''CallStatus'' \<in> fst ` set (req_query override_request)"
    by (simp add: query_override_request)
  have b: "field (parse_body sample_env override_request) ''CallStatus'' = Some (JStr ''ringing'')"
    by (simp add: parse_override_request field_def)
  show ?thesis
    using callbackData_body_precedence [OF q b] q b
    by (simp add: query_override_request)
qed

lemma parse_unloggable_lead_callback_request:
  "parse_body e unloggable_lead_callback_request =
     JObj [(''CallSid'', JStr ''CA123''), (''CallStatus'', JStr ''completed''),
           (''leadId'', JObj [(''toString'', JNull)])]"
  by (simp add: unloggable_lead_callback_request_def parse_body_def json_post_def)

lemma query_unloggable_lead_callback_request: "req_query unloggable_lead_callback_request = []"
  by (simp add: unloggable_lead_callback_request_def json_post_def)

text \<open>
  Claim C6, at the input where the code departs from it. A status callback in JSON that
  reports \<^verbatim>\<open>completed\<close> and whose \<^verbatim>\<open>leadId\<close> is an object with an own
  \<^verbatim>\<open>toString\<close> property is resolved to \<^verbatim>\<open>statusCallback\<close> and reaches the branch
  of line 395. There the log of line 413 converts the lead reference and throws, and the
  top-level \<^verbatim>\<open>catch\<close> answers with a JSON body: no markup, and no closing message.
\<close>

theorem statusCallback_log_throws:
  "req_method unloggable_lead_callback_request \<noteq> ''OPTIONS''
   \<and> caller_id_set sample_env \<and> client_ready sample_env
   \<and> classify unloggable_lead_callback_request (parse_body sample_env unloggable_lead_callback_request)
       = Inr (Some (JStr ''statusCallback''), False)
   \<and> map_of (callbackData unloggable_lead_callback_request
         (parse_body sample_env unloggable_lead_callback_request)) ''CallStatus''
       = Some (JStr ''completed'')
   \<and> statusCallback_handler unloggable_lead_callback_request
         (parse_body sample_env unloggable_lead_callback_request)
       = Inl (JsError ''Cannot convert object to primitive value'')
   \<and> markup (fst (serve sample_env unloggable_lead_callback_request)) = None
   \<and> content_type (fst (serve sample_env unloggable_lead_callback_request)) = Some ''application/json''
   \<and> serve sample_env unloggable_lead_callback_request
       = (json_failure ''Cannot convert object to primitive value'', [])"
proof -
  let ?req = unloggable_lead_callback_request
  let ?rd = "parse_body sample_env ?req"
  have m: "req_method ?req \<noteq> ''OPTIONS''"
    by (simp add: unloggable_lead_callback_request_def method_json_post)
  have c: "classify ?req ?rd = Inr (Some (JStr ''statusCallback''), False)"
    unfolding parse_unloggable_lead_callback_request
    by (simp add: classify_eval query_unloggable_lead_callback_request)
  have d: "callbackData ?req ?rd =
      [(''CallSid'', JStr ''CA123''), (''CallStatus'', JStr ''completed''),
       (''leadId'', JObj [(''toString'', JNull)])]"
    unfolding parse_unloggable_lead_callback_request
    by (simp add: callbackData_def assign_all_def query_unloggable_lead_callback_request
        string_entries_def)
  have s: "statusCallback_handler ?req ?rd = Inl (JsError ''Cannot convert object to primitive value'')"
    unfolding statusCallback_handler_def Let_def d
    by (simp add: cannot_convert_def)
  obtain callerId where
    h: "handle_action sample_env ?req ?rd (Some (JStr ''statusCallback'')) False
          = with_client sample_env ?req ?rd (Some (JStr ''statusCallback'')) callerId"
    using handle_action_ready [OF caller_id_sample client_ready_sample, of "Some (JStr ''statusCallback'')" False ?req ?rd]
    by auto
  have w: "with_client sample_env ?req ?rd (Some (JStr ''statusCallback'')) callerId
      = Inl (JsError ''Cannot convert object to primitive value'')"
    by (simp add: with_client_def s)
  have r: "serve sample_env ?req = (json_failure ''Cannot convert object to primitive value'', [])"
    unfolding serve_classified [OF m c] h w
    by (simp add: catch_handler_def json_failure_def json_response_def message_or_def)
  show ?thesis
    using m caller_id_sample client_ready_sample c s
    unfolding r d
    by (simp add: json_failure_def json_response_def content_type_def corsHeaders_def)
qed

text \<open>
  When the log of line 413 can convert what it prints, the code does as C6 says: a
  request handled by the status-callback branch (its action is resolved to
  \<^verbatim>\<open>statusCallback\<close>, or it has no action and carries a call identifier), with the
  caller ID and the client at hand, is answered with a markup document and no provider
  call. The document speaks the closing message exactly when the merged
  \<^verbatim>\<open>CallStatus\<close> is \<^verbatim>\<open>completed\<close>; for any other status it is the empty document.
\<close>

lemma statusCallback_markup_when_logged:
  assumes "req_method req \<noteq> ''OPTIONS''"
    and "caller_id_set env" and "client_ready env"
    and "classify req (parse_body env req) = Inr (action, client)"
    and "action = Some (JStr ''statusCallback'')
         \<or> (\<not> truthy_opt action \<and> truthy_opt (field (parse_body env req) ''CallSid'') \<and> \<not> client)"
    and "template_error
           [map_of (callbackData req (parse_body env req)) ''CallSid'',
            map_of (callbackData req (parse_body env req)) ''CallStatus'',
            js_or (js_or (map_of (callbackData req (parse_body env req)) ''leadId'')
                         (map_option JStr (searchParams_get req ''leadId'')))
                  (Some (JStr ''unknown''))] = None"
  shows "\<exists>vs. serve env req = (xml_response vs, [])
     \<and> (spoken vs = [''Thank you for using our service. Goodbye.'']
          \<longleftrightarrow> map_of (callbackData req (parse_body env req)) ''CallStatus'' = Some (JStr ''completed''))
     \<and> (map_of (callbackData req (parse_body env req)) ''CallStatus'' \<noteq> Some (JStr ''completed'')
          \<longrightarrow> vs = [])"
proof -
  let ?rd = "parse_body env req"
  let ?completed = "map_of (callbackData req ?rd) ''CallStatus'' = Some (JStr ''completed'')"
  define vs where "vs = (if ?completed then [Say ''Thank you for using our service. Goodbye.''] else [])"
  have "action \<noteq> Some (JStr ''clientCall'') \<or> \<not> client"
    using assms(5) by auto
  then have nc: "\<not> client"
    using classify_other_action [OF assms(4)] by blast
  have a1: "action \<noteq> Some (JStr ''conferenceStatus'')" "action \<noteq> Some (JStr ''clientCall'')"
    "action \<noteq> Some (JStr ''getConfig'')" "action \<noteq> Some (JStr ''makeCall'')"
    using assms(5) by auto
  obtain callerId where
    h: "handle_action env req ?rd action client = with_client env req ?rd action callerId"
    using handle_action_ready [OF assms(2,3) a1(1,2,3) nc, of req ?rd] by blast
  have k: "statusCallback_handler req ?rd = Inr (xml_response vs)"
    unfolding statusCallback_handler_def Let_def assms(6) vs_def by simp
  have w: "with_client env req ?rd action callerId = Inr (xml_response vs, [])"
    using assms(5) a1(4) nc by (simp add: with_client_def k)
  have "serve env req = (xml_response vs, [])"
    unfolding serve_classified [OF assms(1,4)] h w by simp
  moreover have "spoken vs = [''Thank you for using our service. Goodbye.''] \<longleftrightarrow> ?completed"
    by (simp add: vs_def)
  moreover have "\<not> ?completed \<longrightarrow> vs = []"
    by (simp add: vs_def)
  ultimately show ?thesis by blast
qed

subsection \<open>Sentinel call identifiers\<close>

text \<open>
  Claim C8. With the caller ID and the client at hand, \<^verbatim>\<open>checkStatus\<close> with the
  \<^verbatim>\<open>callSid\<close> \<^verbatim>\<open>pending-sid\<close> or \<^verbatim>\<open>browser-call\<close> answers
  \<^verbatim>\<open>{success: true, status: "pending"}\<close>, and \<^verbatim>\<open>endCall\<close> with the \<^verbatim>\<open>callSid\<close>
  \<^verbatim>\<open>browser-call\<close> answers a success payload; neither makes a call on the provider
  client.
\<close>

theorem sentinel_callSid_short_circuit:
  assumes "req_method req \<noteq> ''OPTIONS''"
    and "caller_id_set env" and "client_ready env"
    and "classify req (parse_body env req) = Inr (action, client)"
  shows "(action = Some (JStr ''checkStatus'')
          \<and> (field (parse_body env req) ''callSid'' = Some (JStr ''pending-sid'')
             \<or> field (parse_body env req) ''callSid'' = Some (JStr ''browser-call''))
          \<longrightarrow> serve env req =
                (json_response (JObj [(''success'', JBool True), (''status'', JStr ''pending'')]), []))
       \<and> (action = Some (JStr ''endCall'')
          \<and> field (parse_body env req) ''callSid'' = Some (JStr ''browser-call'')
          \<longrightarrow> serve env req =
                (json_response (JObj [(''success'', JBool True),
                   (''message'', JStr ''Browser call handling managed client-side'')]), []))"
proof -
  let ?rd = "parse_body env req"
  have ready: "serve env req = (case with_client env req ?rd action callerId of
          Inr result \<Rightarrow> result | Inl error \<Rightarrow> (catch_handler error, []))"
    if "action = Some (JStr ''checkStatus'') \<or> action = Some (JStr ''endCall'')"
      and "TWILIO_PHONE_NUMBER env = Some callerId" for callerId
  proof -
    have nc: "\<not> client"
      using that(1) classify_other_action [OF assms(4)] by auto
    have "action \<noteq> Some (JStr ''conferenceStatus'')" "action \<noteq> Some (JStr ''clientCall'')"
      "action \<noteq> Some (JStr ''getConfig'')"
      using that(1) by auto
    then show ?thesis
      using handle_action_ready [OF assms(2,3) _ _ _ nc, of action req ?rd]
        serve_classified [OF assms(1,4)] that(2)
      by auto
  qed
  obtain callerId where p: "TWILIO_PHONE_NUMBER env = Some callerId"
    using assms(2) by (auto simp: caller_id_set_def unset_def split: option.splits)
  show ?thesis
    using ready [OF _ p]
    by (auto simp: with_client_def checkStatus_handler_def endCall_handler_def)
qed

text \<open>Witness for C8: one request for each of the two actions.\<close>

theorem sentinel_callSid_short_circuit_witness:
  "req_method checkStatus_request \<noteq> ''OPTIONS''
   \<and> req_method endCall_request \<noteq> ''OPTIONS''
   \<and> caller_id_set sample_env \<and> client_ready sample_env
   \<and> classify checkStatus_request (parse_body sample_env checkStatus_request)
       = Inr (Some (JStr ''checkStatus''), False)
   \<and> field (parse_body sample_env checkStatus_request) ''callSid'' = Some (JStr ''pending-sid'')
   \<and> serve sample_env checkStatus_request =
       (json_response (JObj [(''success'', JBool True), (''status'', JStr ''pending'')]), [])
   \<and> classify endCall_request (parse_body sample_env endCall_request)
       = Inr (Some (JStr ''endCall''), False)
   \<and> field (parse_body sample_env endCall_request) ''callSid'' = Some (JStr ''browser-call'')
   \<and> serve sample_env endCall_request =
       (json_response (JObj [(''success'', JBool True),
          (''message'', JStr ''Browser call handling managed client-side'')]), [])"
proof -
  have m: "req_method checkStatus_request \<noteq> ''OPTIONS''"
    by (simp add: checkStatus_request_def method_json_post)
  have m': "req_method endCall_request \<noteq> ''OPTIONS''"
    by (simp add: endCall_request_def method_json_post)
  have c: "classify checkStatus_request (parse_body sample_env checkStatus_request)
       = Inr (Some (JStr ''checkStatus''), False)"
    unfolding parse_checkStatus_request
    by (simp add: classify_eval query_checkStatus_request)
  have c': "classify endCall_request (parse_body sample_env endCall_request)
       = Inr (Some (JStr ''endCall''), False)"
    unfolding parse_endCall_request
    by (simp add: classify_eval query_endCall_request)
  have f: "field (parse_body sample_env checkStatus_request) ''callSid'' = Some (JStr ''pending-sid'')"
    by (simp add: parse_checkStatus_request field_def)
  have f': "field (parse_body sample_env endCall_request) ''callSid'' = Some (JStr ''browser-call'')"
    by (simp add: parse_endCall_request field_def)
  show ?thesis
    using sentinel_callSid_short_circuit [OF m caller_id_sample client_ready_sample c]
      sentinel_callSid_short_circuit [OF m' caller_id_sample client_ready_sample c']
      m m' caller_id_sample client_ready_sample c c' f f'
    by simp
qed

subsection \<open>The top-level catch\<close>

text \<open>
  Claim C10 (amended). The top-level \<^verbatim>\<open>catch\<close> always answers with status 200. When
  the message of the caught error contains \<^verbatim>\<open>JSON\<close>, the answer is the empty markup
  document with content type \<^verbatim>\<open>text/xml\<close>. Otherwise it is the JSON body
  \<^verbatim>\<open>{success: false, error}\<close>, where the error is the message, or
  \<^verbatim>\<open>An unexpected error occurred\<close> when the message is empty.
\<close>

theorem catch_handler_response:
  "status (catch_handler e) = 200
   \<and> (js_includes (message e) ''JSON'' \<longrightarrow>
        catch_handler e = xml_response [] \<and> content_type (catch_handler e) = Some ''text/xml'')
   \<and> (\<not> js_includes (message e) ''JSON'' \<longrightarrow>
        catch_handler e =
          json_failure (if message e = [] then ''An unexpected error occurred'' else message e))"
  by (cases "message e")
     (simp_all add: catch_handler_def json_failure_def json_response_def xml_response_def
        message_or_def content_type_def corsHeaders_def)

text \<open>Witness for C10 (amended): an error of each of the two kinds.\<close>

theorem catch_handler_response_witness:
  "js_includes ''Unexpected token < in JSON at position 0'' ''JSON''
   \<and> catch_handler (JsError ''Unexpected token < in JSON at position 0'') = xml_response []
   \<and> \<not> js_includes ''phoneNumber.startsWith is not a function'' ''JSON''
   \<and> catch_handler (JsError ''phoneNumber.startsWith is not a function'')
       = json_failure ''phoneNumber.startsWith is not a function''
   \<and> status (catch_handler (JsError ''phoneNumber.startsWith is not a function'')) = 200"
  using catch_handler_response [of "JsError ''Unexpected token < in JSON at position 0''"]
    catch_handler_response [of "JsError ''phoneNumber.startsWith is not a function''"]
  by (simp add: status_json_failure)

text \<open>
  Counterexample to C10 as stated: for an error with the empty message, the error of the
  JSON body is the fallback text, not the message.
\<close>

theorem catch_handler_empty_message_counterexample:
  "\<not> js_includes (message (JsError [])) ''JSON''
   \<and> catch_handler (JsError []) = json_failure ''An unexpected error occurred''
   \<and> catch_handler (JsError []) \<noteq> json_failure (message (JsError []))"
  by (simp add: catch_handler_def json_failure_def json_response_def message_or_def)

end
